theory Spec2Isabelle
  imports Complex_Main
begin

section \<open>MedAI chat backend: the two JSON endpoints of \<^verbatim>\<open>medical_app/views.py\<close>\<close>

text \<open>
  The development embeds the two request handlers \<^verbatim>\<open>chat_api\<close> and
  \<^verbatim>\<open>initial_consultation_api\<close>. Everything the handlers do themselves is
  modelled as the source writes it: the method check, the parsed body's fields, the
  truthiness tests, the prompt templates, the history loop with its tag stripping and
  truncation, the catch-all handler and the JSON envelopes. What the handlers call but
  do not implement (\<^verbatim>\<open>json.loads\<close>, the generative-text client, Python's
  \<^verbatim>\<open>str()\<close> on values that are not strings, the interpreter's own error
  messages) is a field of the environment record \<open>py_env\<close>, so every theorem holds
  for every behaviour of those libraries.
\<close>

subsection \<open>Strings and JSON values\<close>

text \<open>
  A Python \<^verbatim>\<open>str\<close> is a sequence of Unicode code points and \<^verbatim>\<open>len\<close>
  counts code points, so a string is a list of code points (natural numbers);
  \<open>ustr\<close> turns an ASCII literal into one. The raw request body is a byte string
  and stays a HOL \<open>string\<close>.
\<close>

type_synonym pystr = "nat list"

definition ustr :: "string \<Rightarrow> pystr" where
  "ustr s = map of_char s"

text \<open>
  The values \<^verbatim>\<open>json.loads\<close> produces. A float is a finite rational or one of
  the three special values the decoder accepts; a \<^verbatim>\<open>dict\<close> is an association
  list read with \<open>map_of\<close>, so the first pair of a key is the one that counts.
\<close>

datatype pyfloat = Finite rat | NaN | Infinity bool

datatype json =
    JNull
  | JBool bool
  | JInt int
  | JFloat pyfloat
  | JStr pystr
  | JList "json list"
  | JDict "(pystr \<times> json) list"

text \<open>Python truthiness (\<^verbatim>\<open>if x:\<close>, \<^verbatim>\<open>not x\<close>) of a decoded JSON value.\<close>

fun truthy :: "json \<Rightarrow> bool" where
  "truthy JNull = False"
| "truthy (JBool b) = b"
| "truthy (JInt i) = (i \<noteq> 0)"
| "truthy (JFloat f) = (f \<noteq> Finite 0)"
| "truthy (JStr s) = (s \<noteq> [])"
| "truthy (JList xs) = (xs \<noteq> [])"
| "truthy (JDict kvs) = (kvs \<noteq> [])"

subsection \<open>Exceptions, effects and the environment\<close>

text \<open>
  An exception is either raised inside a library call (\<open>Raised\<close>, with its class name
  and its message) or by the interpreter on a value of the wrong type: an attribute
  that the value does not have, a slice of a value that cannot be sliced, a regular
  expression applied to a value that is not a string. All of them are subclasses of
  \<^verbatim>\<open>Exception\<close>.
\<close>

datatype py_exception =
    Raised pystr pystr
  | AttributeError json pystr
  | NotSubscriptable json
  | ExpectedString json

text \<open>The result of \<^verbatim>\<open>model.generate_content\<close>: a falsy value, or a response
  object whose \<^verbatim>\<open>text\<close> accessor returns the text or raises.\<close>

datatype api_response = NoResponse | Response "py_exception + pystr"

text \<open>What a handler does besides returning: decoding the body, calling the
  generative-text API (model name and prompt), printing to the log.\<close>

datatype event =
    JsonLoads string
  | GenerateContent pystr pystr
  | Print pystr

record py_env =
  json_loads :: "string \<Rightarrow> py_exception + json"
  generate_content :: "pystr \<Rightarrow> pystr \<Rightarrow> py_exception + api_response"
  py_str :: "json \<Rightarrow> pystr"
  interp_message :: "py_exception \<Rightarrow> pystr"

record http_request =
  http_method :: pystr
  body :: string

record http_response =
  status_code :: nat
  json_body :: "(pystr \<times> json) list"

text \<open>\<^verbatim>\<open>JsonResponse(data, status=...)\<close>; the status defaults to 200.\<close>

definition JsonResponse :: "(pystr \<times> json) list \<Rightarrow> nat \<Rightarrow> http_response" where
  "JsonResponse data st = \<lparr>status_code = st, json_body = data\<rparr>"

text \<open>\<^verbatim>\<open>str(e)\<close>.\<close>

definition exc_str :: "py_env \<Rightarrow> py_exception \<Rightarrow> pystr" where
  "exc_str env e = (case e of Raised cls msg \<Rightarrow> msg | _ \<Rightarrow> interp_message env e)"

text \<open>A replacement field \<^verbatim>\<open>{x}\<close> of an f-string: a string is inserted as it is,
  any other value through \<^verbatim>\<open>str()\<close>.\<close>

definition py_format :: "py_env \<Rightarrow> json \<Rightarrow> pystr" where
  "py_format env v = (case v of JStr s \<Rightarrow> s | _ \<Rightarrow> py_str env v)"

text \<open>Sequencing of steps that may raise.\<close>

definition try_bind :: "'e + 'a \<Rightarrow> ('a \<Rightarrow> 'e + 'b) \<Rightarrow> 'e + 'b" where
  "try_bind r f = (case r of Inl e \<Rightarrow> Inl e | Inr v \<Rightarrow> f v)"

text \<open>\<^verbatim>\<open>obj.get(key, default)\<close>: only a \<^verbatim>\<open>dict\<close> has the method.\<close>

definition dict_get :: "(pystr \<times> json) list \<Rightarrow> pystr \<Rightarrow> json \<Rightarrow> json" where
  "dict_get kvs key dflt = (case map_of kvs key of Some v \<Rightarrow> v | None \<Rightarrow> dflt)"

definition py_get :: "json \<Rightarrow> pystr \<Rightarrow> json \<Rightarrow> py_exception + json" where
  "py_get obj key dflt =
     (case obj of
        JDict kvs \<Rightarrow> Inr (dict_get kvs key dflt)
      | _ \<Rightarrow> Inl (AttributeError obj (ustr ''get'')))"

text \<open>\<^verbatim>\<open>x[-6:]\<close>: the last six elements of a list or characters of a string
  (all of them when there are fewer); any other value raises.\<close>

definition last_six :: "'a list \<Rightarrow> 'a list" where
  "last_six xs = drop (length xs - 6) xs"

definition py_slice_last_six :: "json \<Rightarrow> py_exception + json" where
  "py_slice_last_six v =
     (case v of
        JList xs \<Rightarrow> Inr (JList (last_six xs))
      | JStr s \<Rightarrow> Inr (JStr (last_six s))
      | _ \<Rightarrow> Inl (NotSubscriptable v))"

text \<open>The elements a \<^verbatim>\<open>for\<close> loop visits: of a string its one-character strings,
  of a dict its keys.\<close>

definition py_iter :: "json \<Rightarrow> py_exception + json list" where
  "py_iter v =
     (case v of
        JList xs \<Rightarrow> Inr xs
      | JStr s \<Rightarrow> Inr (map (\<lambda>c. JStr [c]) s)
      | JDict kvs \<Rightarrow> Inr (map (\<lambda>kv. JStr (fst kv)) kvs)
      | _ \<Rightarrow> Inl (NotSubscriptable v))"

subsection \<open>Tag stripping: \<^verbatim>\<open>re.sub(r'<[^>]+>', '', content)\<close>\<close>

text \<open>
  The pattern matches \<^verbatim>\<open><\<close>, then one or more characters other than
  \<^verbatim>\<open>>\<close> (greedily; the class also matches \<^verbatim>\<open><\<close> and newlines), then
  \<^verbatim>\<open>>\<close>. \<open>match_tag cs\<close> is the match attempt right after a \<^verbatim>\<open><\<close>: it
  returns what follows the closing \<^verbatim>\<open>>\<close>, or \<open>None\<close> when the next
  \<^verbatim>\<open>>\<close> comes at once or never. \<^verbatim>\<open>re.sub\<close> scans from the left,
  deletes each match and goes on after it.
\<close>

definition lt_sign :: nat where
  "lt_sign = of_char CHR ''<''"

definition gt_sign :: nat where
  "gt_sign = of_char CHR ''>''"

definition match_tag :: "pystr \<Rightarrow> pystr option" where
  "match_tag cs =
     (let inner = takeWhile (\<lambda>c. c \<noteq> gt_sign) cs;
          rest = dropWhile (\<lambda>c. c \<noteq> gt_sign) cs
      in if inner \<noteq> [] \<and> rest \<noteq> [] then Some (tl rest) else None)"

function strip_tags :: "pystr \<Rightarrow> pystr" where
  "strip_tags [] = []"
| "strip_tags (c # cs) =
     (if c = lt_sign
      then (case match_tag cs of
              Some rest \<Rightarrow> strip_tags rest
            | None \<Rightarrow> c # strip_tags cs)
      else c # strip_tags cs)"
  by pat_completeness auto

termination strip_tags
proof (relation "measure length")
  fix c :: nat and cs rest :: pystr
  assume "match_tag cs = Some rest"
  then have "rest = tl (dropWhile (\<lambda>c. c \<noteq> gt_sign) cs)"
    by (simp add: match_tag_def Let_def split: if_splits)
  moreover have "length (dropWhile (\<lambda>c. c \<noteq> gt_sign) cs) \<le> length cs"
    by (rule length_dropWhile_le)
  ultimately show "(rest, c # cs) \<in> measure length"
    by simp
qed simp_all

text \<open>\<^verbatim>\<open>re.sub\<close> accepts a string only.\<close>

definition re_sub_tags :: "json \<Rightarrow> py_exception + pystr" where
  "re_sub_tags content =
     (case content of JStr s \<Rightarrow> Inr (strip_tags s) | _ \<Rightarrow> Inl (ExpectedString content))"

text \<open>\<^verbatim>\<open>clean[:500] + '...' if len(clean) > 500 else clean\<close>\<close>

definition limit_length :: "pystr \<Rightarrow> pystr" where
  "limit_length clean_content =
     (if length clean_content > 500 then take 500 clean_content @ ustr ''...''
      else clean_content)"

subsection \<open>Prompt templates\<close>

text \<open>The fixed text of the templates, line by line as in the source.\<close>

definition system_context_base :: pystr where
  \<open>system_context_base = concat
    [ustr ''You are MedAI, a compassionate and knowledgeable medical AI assistant. Your role is to provide evidence-based health information and guidance while maintaining appropriate medical boundaries.\<newline>'',
     ustr ''\<newline>'',
     ustr ''IMPORTANT GUIDELINES:\<newline>'',
     ustr ''1. Be empathetic, supportive, and use clear language\<newline>'',
     ustr ''2. Provide general health information and education\<newline>'',
     ustr ''3. Always emphasize that you're not a substitute for professional medical advice\<newline>'',
     ustr ''4. Never provide specific medical diagnoses or prescriptions\<newline>'',
     ustr ''5. Focus on self-care guidance and when to seek medical attention\<newline>'',
     ustr ''6. If symptoms sound serious or life-threatening, strongly urge immediate medical attention\<newline>'',
     ustr ''7. Structure responses clearly with sections like "Possible Causes", "Self-Care Advice", "When to See a Doctor"\<newline>'',
     ustr ''8. Use HTML formatting for better readability (paragraphs, lists, bold text)\<newline>'',
     ustr ''\<newline>'',
     ustr ''EMERGENCY SYMPTOMS that require immediate medical attention:\<newline>'',
     ustr ''- Difficulty breathing or shortness of breath\<newline>'',
     ustr ''- Chest pain or pressure\<newline>'',
     ustr ''- Severe bleeding\<newline>'',
     ustr ''- Loss of consciousness or severe confusion\<newline>'',
     ustr ''- Severe allergic reactions\<newline>'',
     ustr ''- Suspected stroke symptoms (FAST: Face drooping, Arm weakness, Speech difficulty, Time to call 911)\<newline>'',
     ustr ''- Severe abdominal pain\<newline>'',
     ustr ''- High fever (above 103'' @ [176] @ ustr ''F/39.4'' @ [176] @ ustr ''C) with other serious symptoms\<newline>'']\<close>

definition chat_instructions :: pystr where
  \<open>chat_instructions = concat
    [ustr ''Please provide a helpful, medically-informed response. Use HTML formatting (paragraphs, bold text, lists) to make your response clear and easy to read. Structure your response with appropriate sections if needed.'']\<close>

definition consultation_intro :: pystr where
  \<open>consultation_intro = concat
    [ustr ''You are MedAI, a compassionate medical AI assistant. A patient has just shared their symptoms with you. Provide a thorough initial assessment.\<newline>'',
     ustr ''\<newline>'']\<close>

definition consultation_instructions :: pystr where
  \<open>consultation_instructions = concat
    [ustr ''\<newline>'',
     ustr ''INSTRUCTIONS:\<newline>'',
     ustr ''1. Start with a warm, empathetic greeting\<newline>'',
     ustr ''2. Provide an initial assessment with possible causes (use collapsible HTML sections)\<newline>'',
     ustr ''3. Offer evidence-based self-care advice\<newline>'',
     ustr ''4. If severity is 4-5, include urgent care warning\<newline>'',
     ustr ''5. Explain when to see a doctor\<newline>'',
     ustr ''6. End by asking if they have questions\<newline>'',
     ustr ''\<newline>'',
     ustr ''FORMAT YOUR RESPONSE WITH HTML:\<newline>'',
     ustr ''- Use <p> for paragraphs\<newline>'',
     ustr ''- Use <strong> for emphasis\<newline>'',
     ustr ''- Use <ul> and <li> for lists\<newline>'',
     ustr ''- Create collapsible sections like this:\<newline>'',
     ustr ''\<newline>'',
     ustr ''<div class="collapsible-section active">\<newline>'',
     ustr ''    <div class="collapsible-header" onclick="toggleCollapsible(this)">\<newline>'',
     ustr ''        <span>'' @ [128269] @ ustr '' Section Title</span>\<newline>'',
     ustr ''        <span class="collapsible-icon">'' @ [9660] @ ustr ''</span>\<newline>'',
     ustr ''    </div>\<newline>'',
     ustr ''    <div class="collapsible-content">\<newline>'',
     ustr ''        <div class="collapsible-body">\<newline>'',
     ustr ''            Content here with <strong>bold text</strong> and lists\<newline>'',
     ustr ''        </div>\<newline>'',
     ustr ''    </div>\<newline>'',
     ustr ''</div>\<newline>'',
     ustr ''\<newline>'',
     ustr ''Create sections for: Possible Causes, Self-Care Advice, When to See a Doctor, and (if severe) When to Seek Immediate Care.\<newline>'',
     ustr ''\<newline>'',
     ustr ''Provide a comprehensive, caring, and medically-informed initial assessment.'']\<close>

text \<open>
  The patient block, the same seven lines in both templates. The six
  \<^verbatim>\<open>intake_data.get\<close> calls run in order; the first raises when the value is not a
  dict.
\<close>

definition patient_information :: "py_env \<Rightarrow> json \<Rightarrow> py_exception + pystr" where
  "patient_information env intake_data =
     try_bind (py_get intake_data (ustr ''ageRange'') (JStr (ustr ''Not specified''))) (\<lambda>age_range.
     try_bind (py_get intake_data (ustr ''sex'') (JStr (ustr ''Not specified''))) (\<lambda>sex.
     try_bind (py_get intake_data (ustr ''symptom'') (JStr (ustr ''Not specified''))) (\<lambda>symptom.
     try_bind (py_get intake_data (ustr ''duration'') (JStr (ustr ''Not specified''))) (\<lambda>duration.
     try_bind (py_get intake_data (ustr ''severity'') (JStr (ustr ''Not specified''))) (\<lambda>severity.
     try_bind (py_get intake_data (ustr ''context'') (JStr (ustr ''None provided''))) (\<lambda>context.
       Inr (concat
         [ustr ''PATIENT INFORMATION:\<newline>'',
          ustr ''- Age Range: '', py_format env age_range, ustr ''\<newline>'',
          ustr ''- Sex: '', py_format env sex, ustr ''\<newline>'',
          ustr ''- Main Symptom: '', py_format env symptom, ustr ''\<newline>'',
          ustr ''- Duration: '', py_format env duration, ustr ''\<newline>'',
          ustr ''- Severity (1-5): '', py_format env severity, ustr ''\<newline>'',
          ustr ''- Additional Context: '', py_format env context, ustr ''\<newline>''])))))))"

subsection \<open>The conversation history in the chat prompt\<close>

text \<open>
  One iteration of the loop over \<^verbatim>\<open>recent_history\<close>: what becomes of
  \<^verbatim>\<open>system_context\<close>. A user entry is appended as it is, an assistant entry
  with its tags stripped and its length limited, any other role leaves the context
  unchanged.
\<close>

definition history_entry :: "py_env \<Rightarrow> pystr \<Rightarrow> json \<Rightarrow> py_exception + pystr" where
  "history_entry env system_context msg =
     try_bind (py_get msg (ustr ''role'') (JStr [])) (\<lambda>role.
     try_bind (py_get msg (ustr ''content'') (JStr [])) (\<lambda>content.
       if role = JStr (ustr ''user'')
       then Inr (system_context @ ustr ''Patient: '' @ py_format env content @ ustr ''\<newline>'')
       else if role = JStr (ustr ''assistant'')
       then try_bind (re_sub_tags content) (\<lambda>clean_content.
              Inr (system_context @ ustr ''You: '' @ limit_length clean_content @ ustr ''\<newline>''))
       else Inr system_context))"

fun history_loop :: "py_env \<Rightarrow> pystr \<Rightarrow> json list \<Rightarrow> py_exception + pystr" where
  "history_loop env system_context [] = Inr system_context"
| "history_loop env system_context (msg # msgs) =
     try_bind (history_entry env system_context msg) (\<lambda>system_context'.
       history_loop env system_context' msgs)"

definition add_history :: "py_env \<Rightarrow> pystr \<Rightarrow> json \<Rightarrow> py_exception + pystr" where
  "add_history env system_context conversation_history =
     (if truthy conversation_history
      then try_bind (py_slice_last_six conversation_history) (\<lambda>recent_history.
           try_bind (py_iter recent_history) (\<lambda>msgs.
             history_loop env (system_context @ ustr ''\<newline>\<newline>RECENT CONVERSATION:\<newline>'') msgs))
      else Inr system_context)"

definition add_intake :: "py_env \<Rightarrow> pystr \<Rightarrow> json \<Rightarrow> py_exception + pystr" where
  "add_intake env system_context intake_data =
     (if truthy intake_data
      then try_bind (patient_information env intake_data) (\<lambda>info.
             Inr (system_context @ ustr ''\<newline>\<newline>'' @ info))
      else Inr system_context)"

text \<open>The prompt of \<^verbatim>\<open>chat_api\<close>, from the three fields of the request.\<close>

definition chat_prompt :: "py_env \<Rightarrow> json \<Rightarrow> json \<Rightarrow> json \<Rightarrow> py_exception + pystr" where
  "chat_prompt env user_message conversation_history intake_data =
     try_bind (add_intake env system_context_base intake_data) (\<lambda>system_context.
     try_bind (add_history env system_context conversation_history) (\<lambda>system_context.
       Inr (system_context @ ustr ''\<newline>\<newline>CURRENT PATIENT MESSAGE:\<newline>''
            @ py_format env user_message @ ustr ''\<newline>\<newline>'' @ chat_instructions)))"

definition consultation_prompt :: "py_env \<Rightarrow> json \<Rightarrow> py_exception + pystr" where
  "consultation_prompt env intake_data =
     try_bind (patient_information env intake_data) (\<lambda>info.
       Inr (consultation_intro @ info @ consultation_instructions))"

subsection \<open>The handlers\<close>

text \<open>\<^verbatim>\<open>genai.GenerativeModel('gemini-2.5-flash')\<close> only builds the client
  object; the one call that leaves the process is \<^verbatim>\<open>generate_content\<close>, which
  gets the model's name and the prompt.\<close>

definition model_name :: pystr where
  "model_name = ustr ''gemini-2.5-flash''"

text \<open>\<^verbatim>\<open>if response and response.text: ... else: ...\<close> with the endpoint's own
  message for the empty case.\<close>

definition relay :: "pystr \<Rightarrow> api_response \<Rightarrow> py_exception + http_response" where
  "relay empty_message response =
     (case response of
        NoResponse \<Rightarrow>
          Inr (JsonResponse [(ustr ''error'', JStr empty_message),
                             (ustr ''status'', JStr (ustr ''error''))] 500)
      | Response t \<Rightarrow>
          try_bind t (\<lambda>text.
            if text \<noteq> []
            then Inr (JsonResponse [(ustr ''response'', JStr text),
                                    (ustr ''status'', JStr (ustr ''success''))] 200)
            else Inr (JsonResponse [(ustr ''error'', JStr empty_message),
                                    (ustr ''status'', JStr (ustr ''error''))] 500)))"

text \<open>A step of a \<^verbatim>\<open>try\<close> body: its result or exception, and the events so far.\<close>

type_synonym 'a attempt = "(py_exception + 'a) \<times> event list"

definition call_api :: "py_env \<Rightarrow> pystr \<Rightarrow> pystr \<Rightarrow> http_response attempt" where
  "call_api env empty_message prompt =
     (try_bind (generate_content env model_name prompt) (relay empty_message),
      [GenerateContent model_name prompt])"

text \<open>The body of \<^verbatim>\<open>chat_api\<close>'s \<^verbatim>\<open>try\<close> after \<^verbatim>\<open>json.loads\<close>.\<close>

definition chat_handle :: "py_env \<Rightarrow> json \<Rightarrow> http_response attempt" where
  "chat_handle env data =
     (case py_get data (ustr ''message'') (JStr []) of
        Inl e \<Rightarrow> (Inl e, [])
      | Inr user_message \<Rightarrow>
     (case py_get data (ustr ''history'') (JList []) of
        Inl e \<Rightarrow> (Inl e, [])
      | Inr conversation_history \<Rightarrow>
     (case py_get data (ustr ''intake_data'') (JDict []) of
        Inl e \<Rightarrow> (Inl e, [])
      | Inr intake_data \<Rightarrow>
        if \<not> truthy user_message
        then (Inr (JsonResponse [(ustr ''error'', JStr (ustr ''No message provided''))] 400), [])
        else (case chat_prompt env user_message conversation_history intake_data of
                Inl e \<Rightarrow> (Inl e, [])
              | Inr full_prompt \<Rightarrow>
                  call_api env (ustr ''No response generated from AI'') full_prompt))))"

definition consultation_handle :: "py_env \<Rightarrow> json \<Rightarrow> http_response attempt" where
  "consultation_handle env data =
     (case py_get data (ustr ''intake_data'') (JDict []) of
        Inl e \<Rightarrow> (Inl e, [])
      | Inr intake_data \<Rightarrow>
        if \<not> truthy intake_data
        then (Inr (JsonResponse [(ustr ''error'', JStr (ustr ''No intake data provided''))] 400), [])
        else (case consultation_prompt env intake_data of
                Inl e \<Rightarrow> (Inl e, [])
              | Inr prompt \<Rightarrow> call_api env (ustr ''No response generated'') prompt))"

text \<open>The \<^verbatim>\<open>try\<close> body: \<^verbatim>\<open>json.loads(request.body)\<close>, then the rest.\<close>

definition try_body ::
  "py_env \<Rightarrow> (py_env \<Rightarrow> json \<Rightarrow> http_response attempt) \<Rightarrow> http_request \<Rightarrow> http_response attempt" where
  "try_body env handle request =
     (case json_loads env (body request) of
        Inl e \<Rightarrow> (Inl e, [JsonLoads (body request)])
      | Inr data \<Rightarrow>
          (fst (handle env data), JsonLoads (body request) # snd (handle env data)))"

text \<open>\<^verbatim>\<open>except Exception as e\<close>: print the error, answer 500 with its message.\<close>

definition internal_error :: "py_env \<Rightarrow> pystr \<Rightarrow> py_exception \<Rightarrow> http_response" where
  "internal_error env error_message e =
     JsonResponse [(ustr ''error'', JStr error_message),
                   (ustr ''details'', JStr (exc_str env e)),
                   (ustr ''status'', JStr (ustr ''error''))] 500"

definition except_handler ::
  "py_env \<Rightarrow> pystr \<Rightarrow> pystr \<Rightarrow> http_response attempt \<Rightarrow> http_response \<times> event list" where
  "except_handler env log_prefix error_message attempt =
     (case fst attempt of
        Inr response \<Rightarrow> (response, snd attempt)
      | Inl e \<Rightarrow>
          (internal_error env error_message e,
           snd attempt @ [Print (log_prefix @ exc_str env e)]))"

definition method_not_allowed :: http_response where
  "method_not_allowed = JsonResponse [(ustr ''error'', JStr (ustr ''Method not allowed''))] 405"

definition chat_api :: "py_env \<Rightarrow> http_request \<Rightarrow> http_response \<times> event list" where
  "chat_api env request =
     (if http_method request = ustr ''POST''
      then except_handler env (ustr ''Error in chat_api: '')
             (ustr ''An error occurred while processing your request'')
             (try_body env chat_handle request)
      else (method_not_allowed, []))"

definition initial_consultation_api :: "py_env \<Rightarrow> http_request \<Rightarrow> http_response \<times> event list" where
  "initial_consultation_api env request =
     (if http_method request = ustr ''POST''
      then except_handler env (ustr ''Error in initial_consultation_api: '')
             (ustr ''An error occurred'')
             (try_body env consultation_handle request)
      else (method_not_allowed, []))"

subsection \<open>Notions used in the statements\<close>

text \<open>
  A string has a tag when some substring matches \<^verbatim>\<open><[^>]+>\<close>: an opening
  sign, at least one character and no closing sign in between, a closing sign.
  \<open>contains_tag\<close> decides the same by trying a match at every position.
\<close>

definition has_tag :: "pystr \<Rightarrow> bool" where
  "has_tag s =
     (\<exists>pre inner post. s = pre @ lt_sign # inner @ gt_sign # post
        \<and> inner \<noteq> [] \<and> gt_sign \<notin> set inner)"

fun contains_tag :: "pystr \<Rightarrow> bool" where
  "contains_tag [] = False"
| "contains_tag (c # cs) = ((c = lt_sign \<and> match_tag cs \<noteq> None) \<or> contains_tag cs)"

text \<open>The keys of a response body, and the two envelopes of the interface description:
  \<^verbatim>\<open>{response, status}\<close> and \<^verbatim>\<open>{error, status}\<close>.\<close>

definition has_key :: "(pystr \<times> json) list \<Rightarrow> string \<Rightarrow> bool" where
  "has_key data k = (ustr k \<in> set (map fst data))"

definition success_envelope :: "http_response \<Rightarrow> bool" where
  "success_envelope r = (has_key (json_body r) ''response'' \<and> has_key (json_body r) ''status'')"

definition error_envelope :: "http_response \<Rightarrow> bool" where
  "error_envelope r = (has_key (json_body r) ''error'' \<and> has_key (json_body r) ''status'')"

text \<open>
  The requests whose prompt can be built. An entry of the history is a JSON object whose
  content is a string when its role is \<^verbatim>\<open>assistant\<close>; the history is falsy
  or a list whose last six elements are such entries; the intake data is falsy or a JSON
  object.
\<close>

fun is_str :: "json \<Rightarrow> bool" where
  "is_str (JStr s) = True"
| "is_str v = False"

fun is_dict :: "json \<Rightarrow> bool" where
  "is_dict (JDict kvs) = True"
| "is_dict v = False"

definition well_formed_entry :: "json \<Rightarrow> bool" where
  "well_formed_entry msg =
     (case msg of
        JDict kvs \<Rightarrow>
          dict_get kvs (ustr ''role'') (JStr []) \<noteq> JStr (ustr ''assistant'')
          \<or> is_str (dict_get kvs (ustr ''content'') (JStr []))
      | _ \<Rightarrow> False)"

text \<open>
  The lines one entry adds to the prompt: \<^verbatim>\<open>Patient: \<close> and the content for a
  user entry; \<^verbatim>\<open>You: \<close> and the tag-stripped content, cut to its first 500
  characters and \<^verbatim>\<open>...\<close> when it is longer, for an assistant entry; nothing
  for any other entry.
\<close>

definition entry_text :: "py_env \<Rightarrow> json \<Rightarrow> pystr" where
  "entry_text env msg =
     (case msg of
        JDict kvs \<Rightarrow>
          if dict_get kvs (ustr ''role'') (JStr []) = JStr (ustr ''user'')
          then ustr ''Patient: '' @ py_format env (dict_get kvs (ustr ''content'') (JStr []))
               @ ustr ''\<newline>''
          else if dict_get kvs (ustr ''role'') (JStr []) = JStr (ustr ''assistant'')
          then (case dict_get kvs (ustr ''content'') (JStr []) of
                  JStr c \<Rightarrow>
                    ustr ''You: ''
                    @ (if 500 < length (strip_tags c) then take 500 (strip_tags c) @ ustr ''...''
                       else strip_tags c)
                    @ ustr ''\<newline>''
                | _ \<Rightarrow> [])
          else []
      | _ \<Rightarrow> [])"

definition valid_history :: "json \<Rightarrow> bool" where
  "valid_history conversation_history =
     (\<not> truthy conversation_history
      \<or> (case conversation_history of
            JList msgs \<Rightarrow> list_all well_formed_entry (last_six msgs)
          | _ \<Rightarrow> False))"

definition valid_intake :: "json \<Rightarrow> bool" where
  "valid_intake intake_data = (\<not> truthy intake_data \<or> is_dict intake_data)"

text \<open>
  The envelopes the handlers build, by status: a relayed text under 200, an error with
  a status field (and the details of an exception) under 500, an error alone under 400
  and 405.
\<close>

definition body_keys :: "http_response \<Rightarrow> pystr list" where
  "body_keys r = map fst (json_body r)"

definition reply_shape :: "http_response \<Rightarrow> bool" where
  "reply_shape r =
     (if status_code r = 200 then body_keys r = [ustr ''response'', ustr ''status'']
      else if status_code r = 500
      then body_keys r = [ustr ''error'', ustr ''status'']
           \<or> body_keys r = [ustr ''error'', ustr ''details'', ustr ''status'']
      else (status_code r = 400 \<or> status_code r = 405) \<and> body_keys r = [ustr ''error''])"

text \<open>A history entry \<^verbatim>\<open>{"role": role, "content": content}\<close>.\<close>

definition entry :: "string \<Rightarrow> pystr \<Rightarrow> json" where
  "entry role content = JDict [(ustr ''role'', JStr (ustr role)), (ustr ''content'', JStr content)]"

text \<open>
  An environment for the worked examples. Its decoder knows six bodies and rejects
  every other one; its generative model answers every prompt with the same paragraph.
\<close>

definition example_loads :: "string \<Rightarrow> py_exception + json" where
  \<open>example_loads b =
     (if b = ''{}'' then Inr (JDict [])
      else if b = ''{"message": "hi"}'' then Inr (JDict [(ustr ''message'', JStr (ustr ''hi''))])
      else if b = ''{"message": ""}'' then Inr (JDict [(ustr ''message'', JStr [])])
      else if b = ''{"intake_data": {}}'' then Inr (JDict [(ustr ''intake_data'', JDict [])])
      else if b = ''{"intake_data": {"symptom": "cough"}}''
        then Inr (JDict [(ustr ''intake_data'', JDict [(ustr ''symptom'', JStr (ustr ''cough''))])])
      else if b = ''[]'' then Inr (JList [])
      else Inl (Raised (ustr ''JSONDecodeError'') (ustr ''Expecting value: line 1 column 1 (char 0)'')))\<close>

definition example_env :: py_env where
  "example_env =
     \<lparr>json_loads = example_loads,
      generate_content = (\<lambda>name prompt. Inr (Response (Inr (ustr ''<p>Please rest.</p>'')))),
      py_str = (\<lambda>v. ustr ''?''),
      interp_message = (\<lambda>e. ustr ''object has no such attribute'')\<rparr>"

text \<open>The same environment with a generative model that raises on every call.\<close>

definition failing_env :: py_env where
  "failing_env =
     example_env\<lparr>generate_content :=
       (\<lambda>name prompt. Inl (Raised (ustr ''ResourceExhausted'') (ustr ''429 quota exceeded'')))\<rparr>"

definition post_request :: "string \<Rightarrow> http_request" where
  "post_request b = \<lparr>http_method = ustr ''POST'', body = b\<rparr>"

definition get_request :: http_request where
  "get_request = \<lparr>http_method = ustr ''GET'', body = []\<rparr>"

section \<open>Properties\<close>

subsection \<open>Basic facts\<close>

lemma try_bind_simps [simp]:
  "try_bind (Inl e) f = Inl e"
  "try_bind (Inr v) f = f v"
  by (simp_all add: try_bind_def)

lemma py_get_dict [simp]: "py_get (JDict kvs) key dflt = Inr (dict_get kvs key dflt)"
  by (simp add: py_get_def)

lemma lt_neq_gt [simp]: "lt_sign \<noteq> gt_sign" "gt_sign \<noteq> lt_sign"
  by (simp_all add: lt_sign_def gt_sign_def)

lemma length_last_six: "length (last_six xs) = min 6 (length xs)"
  by (simp add: last_six_def)

lemma last_six_short: "length xs \<le> 6 \<Longrightarrow> last_six xs = xs"
  by (simp add: last_six_def)

lemma last_six_idem: "last_six (last_six xs) = last_six xs"
  by (simp add: last_six_def)

lemma last_six_suffix: "take (length xs - 6) xs @ last_six xs = xs"
  by (simp add: last_six_def)

lemma last_six_Nil_iff: "last_six xs = [] \<longleftrightarrow> xs = []"
  by (cases xs) (simp_all add: last_six_def)

subsection \<open>Tag stripping\<close>

lemma match_tag_shorter: "match_tag cs = Some rest \<Longrightarrow> length rest < Suc (length cs)"
proof -
  assume m: "match_tag cs = Some rest"
  have "length (dropWhile (\<lambda>c. c \<noteq> gt_sign) cs) \<le> length cs"
    by (rule length_dropWhile_le)
  moreover from m have "rest = tl (dropWhile (\<lambda>c. c \<noteq> gt_sign) cs)"
    by (simp add: match_tag_def Let_def split: if_splits)
  ultimately show ?thesis by simp
qed

lemma match_tag_tag: "inner \<noteq> [] \<Longrightarrow> gt_sign \<notin> set inner \<Longrightarrow> match_tag (inner @ gt_sign # post) = Some post"
proof -
  assume ne: "inner \<noteq> []" and ni: "gt_sign \<notin> set inner"
  from ni have all: "\<And>x. x \<in> set inner \<Longrightarrow> x \<noteq> gt_sign" by auto
  have t: "takeWhile (\<lambda>c. c \<noteq> gt_sign) (inner @ gt_sign # post) = inner"
    using all by (simp add: takeWhile_append2)
  have d: "dropWhile (\<lambda>c. c \<noteq> gt_sign) (inner @ gt_sign # post) = gt_sign # post"
    using all by (simp add: dropWhile_append2)
  show ?thesis using ne by (simp add: match_tag_def t d)
qed

lemma match_tag_SomeD:
  assumes "match_tag cs = Some rest"
  shows "\<exists>inner. cs = inner @ gt_sign # rest \<and> inner \<noteq> [] \<and> gt_sign \<notin> set inner"
proof -
  let ?P = "\<lambda>c. c \<noteq> gt_sign"
  from assms have ne: "takeWhile ?P cs \<noteq> []" and dn: "dropWhile ?P cs \<noteq> []"
    and r: "rest = tl (dropWhile ?P cs)"
    by (auto simp: match_tag_def Let_def split: if_splits)
  from dn have "hd (dropWhile ?P cs) = gt_sign"
    using hd_dropWhile[of ?P cs] by auto
  with dn r have d: "dropWhile ?P cs = gt_sign # rest"
    by (cases "dropWhile ?P cs") auto
  have "cs = takeWhile ?P cs @ dropWhile ?P cs" by simp
  with d have "cs = takeWhile ?P cs @ gt_sign # rest" by simp
  moreover have "gt_sign \<notin> set (takeWhile ?P cs)"
    by (auto dest: set_takeWhileD)
  ultimately show ?thesis using ne by blast
qed

lemma match_tag_None_iff: "match_tag cs = None \<longleftrightarrow> (gt_sign \<notin> set cs \<or> (\<exists>r. cs = gt_sign # r))"
proof (cases cs)
  case Nil then show ?thesis by (simp add: match_tag_def)
next
  case (Cons a r)
  show ?thesis
  proof (cases "a = gt_sign")
    case True with Cons show ?thesis by (simp add: match_tag_def)
  next
    case False
    with Cons show ?thesis
      by (auto simp: match_tag_def Let_def dropWhile_eq_Nil_conv)
  qed
qed

lemma set_strip_tags: "set (strip_tags s) \<subseteq> set s"
proof (induction s rule: strip_tags.induct)
  case 1 show ?case by simp
next
  case (2 c cs)
  show ?case
  proof (cases "c = lt_sign")
    case False with 2 show ?thesis by auto
  next
    case True
    show ?thesis
    proof (cases "match_tag cs")
      case None with True 2 show ?thesis by auto
    next
      case (Some rest)
      from match_tag_SomeD[OF Some] have "set rest \<subseteq> set cs" by auto
      with Some True 2 show ?thesis by auto
    qed
  qed
qed

lemma length_strip_tags: "length (strip_tags s) \<le> length s"
proof (induction s rule: strip_tags.induct)
  case 1 show ?case by simp
next
  case (2 c cs)
  show ?case
  proof (cases "c = lt_sign")
    case False with 2 show ?thesis by auto
  next
    case True
    show ?thesis
    proof (cases "match_tag cs")
      case None with True 2 show ?thesis by auto
    next
      case (Some rest)
      from match_tag_shorter[OF Some] Some True 2 show ?thesis by auto
    qed
  qed
qed

lemma strip_tags_no_lt: "lt_sign \<notin> set s \<Longrightarrow> strip_tags s = s"
  by (induction s) auto

lemma strip_tags_leftmost:
  "lt_sign \<notin> set pre \<Longrightarrow> inner \<noteq> [] \<Longrightarrow> gt_sign \<notin> set inner \<Longrightarrow>
   strip_tags (pre @ lt_sign # inner @ gt_sign # post) = pre @ strip_tags post"
  by (induction pre) (auto simp: match_tag_tag)

lemma has_tag_iff: "has_tag s \<longleftrightarrow> contains_tag s"
proof
  assume "has_tag s"
  then obtain pre inner post where s: "s = pre @ lt_sign # inner @ gt_sign # post"
    and i: "inner \<noteq> []" "gt_sign \<notin> set inner" by (auto simp: has_tag_def)
  show "contains_tag s" unfolding s using i
    by (induction pre) (auto simp: match_tag_tag)
next
  assume "contains_tag s"
  then show "has_tag s"
  proof (induction s)
    case Nil then show ?case by simp
  next
    case (Cons c cs)
    show ?case
    proof (cases "c = lt_sign \<and> match_tag cs \<noteq> None")
      case True
      then obtain rest where "match_tag cs = Some rest" by auto
      from match_tag_SomeD[OF this] obtain inner where
        "cs = inner @ gt_sign # rest" "inner \<noteq> []" "gt_sign \<notin> set inner" by blast
      with True have "c # cs = [] @ lt_sign # inner @ gt_sign # rest \<and> inner \<noteq> [] \<and> gt_sign \<notin> set inner"
        by simp
      then show ?thesis unfolding has_tag_def by blast
    next
      case False
      with Cons have "has_tag cs" by auto
      then obtain pre inner post where "cs = pre @ lt_sign # inner @ gt_sign # post"
        "inner \<noteq> []" "gt_sign \<notin> set inner" by (auto simp: has_tag_def)
      then have "c # cs = (c # pre) @ lt_sign # inner @ gt_sign # post \<and> inner \<noteq> [] \<and> gt_sign \<notin> set inner"
        by simp
      then show ?thesis unfolding has_tag_def by blast
    qed
  qed
qed

lemma match_tag_strip_None: "match_tag cs = None \<Longrightarrow> match_tag (strip_tags cs) = None"
proof -
  assume "match_tag cs = None"
  then consider "gt_sign \<notin> set cs" | r where "cs = gt_sign # r"
    by (auto simp: match_tag_None_iff)
  then show ?thesis
  proof cases
    case 1
    with set_strip_tags[of cs] have "gt_sign \<notin> set (strip_tags cs)" by auto
    then show ?thesis by (simp add: match_tag_None_iff)
  next
    case 2
    then show ?thesis by (simp add: match_tag_None_iff)
  qed
qed

lemma strip_tags_no_match: "\<not> contains_tag (strip_tags s)"
proof (induction s rule: strip_tags.induct)
  case 1 show ?case by simp
next
  case (2 c cs)
  show ?case
  proof (cases "c = lt_sign")
    case False with 2 show ?thesis by auto
  next
    case True
    show ?thesis
    proof (cases "match_tag cs")
      case None with True 2 show ?thesis by (auto dest: match_tag_strip_None)
    next
      case (Some rest)
      with True 2 show ?thesis by auto
    qed
  qed
qed

lemma strip_tags_id: "\<not> contains_tag s \<Longrightarrow> strip_tags s = s"
  by (induction s) auto

subsection \<open>The history section of the chat prompt\<close>

lemma key_neqs [simp]:
  "ustr ''message'' \<noteq> ustr ''history''" "ustr ''history'' \<noteq> ustr ''message''"
  "ustr ''intake_data'' \<noteq> ustr ''history''" "ustr ''history'' \<noteq> ustr ''intake_data''"
  "ustr ''user'' \<noteq> ustr ''assistant''" "ustr ''assistant'' \<noteq> ustr ''user''"
  "ustr ''role'' \<noteq> ustr ''content''" "ustr ''content'' \<noteq> ustr ''role''"
  "ustr ''user'' \<noteq> []" "ustr ''assistant'' \<noteq> []"
  "ustr ''GET'' \<noteq> ustr ''POST''"
  by (simp_all add: ustr_def)

lemma length_ustr [simp]: "length (ustr s) = length s"
  by (simp add: ustr_def)

lemma history_entry_dict:
  "history_entry env ctx (JDict kvs) =
     (if dict_get kvs (ustr ''role'') (JStr []) = JStr (ustr ''user'')
      then Inr (ctx @ ustr ''Patient: '' @ py_format env (dict_get kvs (ustr ''content'') (JStr [])) @ ustr ''\<newline>'')
      else if dict_get kvs (ustr ''role'') (JStr []) = JStr (ustr ''assistant'')
      then try_bind (re_sub_tags (dict_get kvs (ustr ''content'') (JStr []))) (\<lambda>clean_content.
             Inr (ctx @ ustr ''You: '' @ limit_length clean_content @ ustr ''\<newline>''))
      else Inr ctx)"
  by (simp add: history_entry_def)

lemma history_loop_append:
  "history_loop env ctx (xs @ ys) = try_bind (history_loop env ctx xs) (\<lambda>ctx'. history_loop env ctx' ys)"
  by (induction xs arbitrary: ctx) (auto simp: try_bind_def split: sum.splits)

lemma add_history_list:
  "add_history env ctx (JList h) =
     (if h = [] then Inr ctx
      else history_loop env (ctx @ ustr ''\<newline>\<newline>RECENT CONVERSATION:\<newline>'') (last_six h))"
  by (simp add: add_history_def py_slice_last_six_def py_iter_def)

lemma add_history_last_six: "add_history env ctx (JList (last_six h)) = add_history env ctx (JList h)"
  by (simp add: add_history_list last_six_idem last_six_Nil_iff)

lemma last_six_append: "6 \<le> length h \<Longrightarrow> last_six (earlier @ h) = last_six h"
  by (simp add: last_six_def)

lemma chat_handle_dict:
  "chat_handle env (JDict kvs) =
     (if \<not> truthy (dict_get kvs (ustr ''message'') (JStr []))
      then (Inr (JsonResponse [(ustr ''error'', JStr (ustr ''No message provided''))] 400), [])
      else (case chat_prompt env (dict_get kvs (ustr ''message'') (JStr []))
                   (dict_get kvs (ustr ''history'') (JList []))
                   (dict_get kvs (ustr ''intake_data'') (JDict [])) of
              Inl e \<Rightarrow> (Inl e, [])
            | Inr full_prompt \<Rightarrow> call_api env (ustr ''No response generated from AI'') full_prompt))"
  by (simp add: chat_handle_def)

lemma chat_prompt_last_six:
  "chat_prompt env user_message (JList (last_six h)) intake_data =
     chat_prompt env user_message (JList h) intake_data"
  by (simp add: chat_prompt_def add_history_last_six)

lemma history_entry_text:
  "well_formed_entry msg \<Longrightarrow> history_entry env ctx msg = Inr (ctx @ entry_text env msg)"
proof (cases msg)
  case (JDict kvs)
  assume "well_formed_entry msg"
  with JDict show ?thesis
    by (cases "dict_get kvs (ustr ''content'') (JStr [])")
      (auto simp: well_formed_entry_def entry_text_def history_entry_dict re_sub_tags_def
        limit_length_def)
qed (simp_all add: well_formed_entry_def)

lemma history_loop_text:
  "list_all well_formed_entry msgs \<Longrightarrow>
   history_loop env ctx msgs = Inr (ctx @ concat (map (entry_text env) msgs))"
proof (induction msgs arbitrary: ctx)
  case Nil
  then show ?case by simp
next
  case (Cons msg msgs)
  then show ?case by (simp add: history_entry_text)
qed

lemma chat_prompt_text:
  assumes "add_intake env system_context_base intake_data = Inr ctx"
    and "list_all well_formed_entry (last_six h)"
  shows "chat_prompt env user_message (JList h) intake_data =
           Inr (ctx
                @ (if h = [] then []
                   else ustr ''\<newline>\<newline>RECENT CONVERSATION:\<newline>''
                        @ concat (map (entry_text env) (last_six h)))
                @ ustr ''\<newline>\<newline>CURRENT PATIENT MESSAGE:\<newline>''
                @ py_format env user_message @ ustr ''\<newline>\<newline>'' @ chat_instructions)"
  using assms by (simp add: chat_prompt_def add_history_list history_loop_text)

lemma entry_text_user:
  "entry_text env (entry ''user'' c) = ustr ''Patient: '' @ c @ ustr ''\<newline>''"
  by (simp add: entry_text_def entry_def dict_get_def py_format_def)

lemma entry_text_assistant:
  "entry_text env (entry ''assistant'' c) =
     ustr ''You: ''
     @ (if 500 < length (strip_tags c) then take 500 (strip_tags c) @ ustr ''...'' else strip_tags c)
     @ ustr ''\<newline>''"
  by (simp add: entry_text_def entry_def dict_get_def)

lemma well_formed_entry_entry [simp]: "well_formed_entry (entry role c)"
  by (simp add: well_formed_entry_def entry_def dict_get_def)

lemma strip_tags_examples:
  "strip_tags (ustr ''<b>two</b>'') = ustr ''two''"
  "strip_tags (ustr ''four'') = ustr ''four''"
  "strip_tags (ustr ''<p>six</p>'') = ustr ''six''"
  by (simp_all add: ustr_def lt_sign_def gt_sign_def match_tag_def)

text \<open>
  Claim C1. Before the conversation history is embedded in the chat prompt it is cut to
  its last six entries. For a history list \<open>h\<close> whose last six entries are well
  formed, the prompt is the context after the intake block, then (unless \<open>h\<close> is
  empty) the heading and the lines of the entries of \<open>last_six h\<close>, one after the
  other in the order of the list, then the current message and the instructions; this
  prompt is what the handler sends to the generative model. \<open>last_six h\<close> is the
  suffix of \<open>h\<close> of length \<open>min 6 (length h)\<close>, all of \<open>h\<close> when it has at
  most six entries. No earlier entry contributes: the prompt for \<open>h\<close> is the prompt
  for \<open>last_six h\<close>, entries put before a block of six or more change nothing, and
  the handler answers a request as it answers the same request with the history cut.
\<close>

theorem history_truncated_to_last_six:
  "(add_intake env system_context_base intake_data = Inr ctx
      \<and> list_all well_formed_entry (last_six h)
    \<longrightarrow> chat_prompt env user_message (JList h) intake_data =
          Inr (ctx
               @ (if h = [] then []
                  else ustr ''\<newline>\<newline>RECENT CONVERSATION:\<newline>''
                       @ concat (map (entry_text env) (last_six h)))
               @ ustr ''\<newline>\<newline>CURRENT PATIENT MESSAGE:\<newline>''
               @ py_format env user_message @ ustr ''\<newline>\<newline>'' @ chat_instructions))
   \<and> (add_intake env system_context_base (dict_get kvs (ustr ''intake_data'') (JDict [])) = Inr ctx
      \<and> list_all well_formed_entry (last_six h)
      \<and> map_of kvs (ustr ''history'') = Some (JList h)
      \<and> truthy (dict_get kvs (ustr ''message'') (JStr []))
    \<longrightarrow> snd (chat_handle env (JDict kvs)) =
          [GenerateContent model_name
             (ctx
              @ (if h = [] then []
                 else ustr ''\<newline>\<newline>RECENT CONVERSATION:\<newline>''
                      @ concat (map (entry_text env) (last_six h)))
              @ ustr ''\<newline>\<newline>CURRENT PATIENT MESSAGE:\<newline>''
              @ py_format env (dict_get kvs (ustr ''message'') (JStr []))
              @ ustr ''\<newline>\<newline>'' @ chat_instructions)])
   \<and> last_six h = drop (length h - 6) h
   \<and> chat_prompt env user_message (JList h) intake_data =
       chat_prompt env user_message (JList (last_six h)) intake_data
   \<and> (6 \<le> length h \<longrightarrow>
        chat_prompt env user_message (JList (earlier @ h)) intake_data =
          chat_prompt env user_message (JList h) intake_data)
   \<and> add_history env ctx (JList h) =
       (if h = [] then Inr ctx
        else history_loop env (ctx @ ustr ''\<newline>\<newline>RECENT CONVERSATION:\<newline>'') (last_six h))
   \<and> length (last_six h) = min 6 (length h)
   \<and> (length h \<le> 6 \<longrightarrow> last_six h = h)
   \<and> take (length h - 6) h @ last_six h = h
   \<and> (map_of kvs (ustr ''history'') = Some (JList h) \<longrightarrow>
        chat_handle env (JDict kvs) =
          chat_handle env (JDict ((ustr ''history'', JList (last_six h)) # kvs)))"
proof -
  have loop: "history_loop env c msgs = Inr (c @ concat (map (entry_text env) msgs))"
    if "list_all well_formed_entry msgs" for c msgs
    using that
  proof (induction msgs arbitrary: c)
    case Nil
    show ?case by simp
  next
    case (Cons msg msgs)
    from Cons.prems have "history_entry env c msg = Inr (c @ entry_text env msg)"
      by (simp add: history_entry_text)
    with Cons show ?case by simp
  qed
  have built: "chat_prompt env user_message (JList h) intake_data =
           Inr (ctx
                @ (if h = [] then []
                   else ustr ''\<newline>\<newline>RECENT CONVERSATION:\<newline>''
                        @ concat (map (entry_text env) (last_six h)))
                @ ustr ''\<newline>\<newline>CURRENT PATIENT MESSAGE:\<newline>''
                @ py_format env user_message @ ustr ''\<newline>\<newline>'' @ chat_instructions)"
    if "add_intake env system_context_base intake_data = Inr ctx"
      and "list_all well_formed_entry (last_six h)" for user_message intake_data
    using that
    by (simp add: chat_prompt_def add_history_def py_slice_last_six_def py_iter_def loop
        last_six_Nil_iff)
  have t: "add_intake env system_context_base intake_data = Inr ctx
      \<and> list_all well_formed_entry (last_six h)
    \<longrightarrow> chat_prompt env user_message (JList h) intake_data =
          Inr (ctx
               @ (if h = [] then []
                  else ustr ''\<newline>\<newline>RECENT CONVERSATION:\<newline>''
                       @ concat (map (entry_text env) (last_six h)))
               @ ustr ''\<newline>\<newline>CURRENT PATIENT MESSAGE:\<newline>''
               @ py_format env user_message @ ustr ''\<newline>\<newline>'' @ chat_instructions)"
    using built by blast
  have s: "add_intake env system_context_base (dict_get kvs (ustr ''intake_data'') (JDict [])) = Inr ctx
      \<and> list_all well_formed_entry (last_six h)
      \<and> map_of kvs (ustr ''history'') = Some (JList h)
      \<and> truthy (dict_get kvs (ustr ''message'') (JStr []))
    \<longrightarrow> snd (chat_handle env (JDict kvs)) =
          [GenerateContent model_name
             (ctx
              @ (if h = [] then []
                 else ustr ''\<newline>\<newline>RECENT CONVERSATION:\<newline>''
                      @ concat (map (entry_text env) (last_six h)))
              @ ustr ''\<newline>\<newline>CURRENT PATIENT MESSAGE:\<newline>''
              @ py_format env (dict_get kvs (ustr ''message'') (JStr []))
              @ ustr ''\<newline>\<newline>'' @ chat_instructions)]"
  proof (intro impI, elim conjE)
    assume i: "add_intake env system_context_base (dict_get kvs (ustr ''intake_data'') (JDict [])) = Inr ctx"
      and w: "list_all well_formed_entry (last_six h)"
      and m: "map_of kvs (ustr ''history'') = Some (JList h)"
      and u: "truthy (dict_get kvs (ustr ''message'') (JStr []))"
    from m have d: "dict_get kvs (ustr ''history'') (JList []) = JList h"
      by (simp add: dict_get_def)
    show "snd (chat_handle env (JDict kvs)) =
          [GenerateContent model_name
             (ctx
              @ (if h = [] then []
                 else ustr ''\<newline>\<newline>RECENT CONVERSATION:\<newline>''
                      @ concat (map (entry_text env) (last_six h)))
              @ ustr ''\<newline>\<newline>CURRENT PATIENT MESSAGE:\<newline>''
              @ py_format env (dict_get kvs (ustr ''message'') (JStr []))
              @ ustr ''\<newline>\<newline>'' @ chat_instructions)]"
      using u by (simp add: chat_handle_def d built [OF i w] call_api_def)
  qed
  have a: "chat_prompt env user_message (JList h) intake_data =
     chat_prompt env user_message (JList (last_six h)) intake_data" for h user_message intake_data
    by (cases "h = []")
      (simp_all add: chat_prompt_def add_history_def py_slice_last_six_def py_iter_def
        last_six_idem last_six_Nil_iff)
  have b: "chat_prompt env user_message (JList (earlier @ h)) intake_data =
          chat_prompt env user_message (JList h) intake_data" if "6 \<le> length h"
    using a [where h = "earlier @ h"] a [where h = h] that by (simp add: last_six_append)
  have c: "chat_handle env (JDict kvs) =
          chat_handle env (JDict ((ustr ''history'', JList (last_six h)) # kvs))"
    if "map_of kvs (ustr ''history'') = Some (JList h)"
    using that a by (simp add: chat_handle_def dict_get_def)
  have r: "last_six h = drop (length h - 6) h
   \<and> add_history env ctx (JList h) =
       (if h = [] then Inr ctx
        else history_loop env (ctx @ ustr ''\<newline>\<newline>RECENT CONVERSATION:\<newline>'') (last_six h))
   \<and> length (last_six h) = min 6 (length h)
   \<and> (length h \<le> 6 \<longrightarrow> last_six h = h)
   \<and> take (length h - 6) h @ last_six h = h"
    by (cases "h = []")
      (auto simp: add_history_def py_slice_last_six_def py_iter_def last_six_def)
  from t s a b c r show ?thesis
    by blast
qed

theorem history_truncated_to_last_six_witness:
  "chat_prompt example_env (JStr (ustr ''hi''))
     (JList [entry ''user'' (ustr ''zero''),
             entry ''user'' (ustr ''one''), entry ''assistant'' (ustr ''<b>two</b>''),
             entry ''user'' (ustr ''three''), entry ''assistant'' (ustr ''four''),
             entry ''user'' (ustr ''five''), entry ''assistant'' (ustr ''<p>six</p>'')])
     (JDict []) =
   Inr (system_context_base
        @ ustr ''\<newline>\<newline>RECENT CONVERSATION:\<newline>''
        @ ustr ''Patient: one\<newline>You: two\<newline>Patient: three\<newline>You: four\<newline>Patient: five\<newline>You: six\<newline>''
        @ ustr ''\<newline>\<newline>CURRENT PATIENT MESSAGE:\<newline>'' @ ustr ''hi''
        @ ustr ''\<newline>\<newline>'' @ chat_instructions)
   \<and> snd (chat_handle example_env
        (JDict [(ustr ''message'', JStr (ustr ''hi'')),
                (ustr ''history'',
                 JList [entry ''user'' (ustr ''zero''),
                        entry ''user'' (ustr ''one''), entry ''assistant'' (ustr ''<b>two</b>''),
                        entry ''user'' (ustr ''three''), entry ''assistant'' (ustr ''four''),
                        entry ''user'' (ustr ''five''), entry ''assistant'' (ustr ''<p>six</p>'')])])) =
     [GenerateContent model_name
        (system_context_base
         @ ustr ''\<newline>\<newline>RECENT CONVERSATION:\<newline>''
         @ ustr ''Patient: one\<newline>You: two\<newline>Patient: three\<newline>You: four\<newline>Patient: five\<newline>You: six\<newline>''
         @ ustr ''\<newline>\<newline>CURRENT PATIENT MESSAGE:\<newline>'' @ ustr ''hi''
         @ ustr ''\<newline>\<newline>'' @ chat_instructions)]
   \<and> chat_prompt example_env (JStr (ustr ''hi''))
      (JList ([entry ''user'' (ustr ''zero'')]
              @ [entry ''user'' (ustr ''one''), entry ''assistant'' (ustr ''<b>two</b>''),
                 entry ''user'' (ustr ''three''), entry ''assistant'' (ustr ''four''),
                 entry ''user'' (ustr ''five''), entry ''assistant'' (ustr ''<p>six</p>'')])) (JDict []) =
     chat_prompt example_env (JStr (ustr ''hi''))
      (JList [entry ''user'' (ustr ''one''), entry ''assistant'' (ustr ''<b>two</b>''),
              entry ''user'' (ustr ''three''), entry ''assistant'' (ustr ''four''),
              entry ''user'' (ustr ''five''), entry ''assistant'' (ustr ''<p>six</p>'')]) (JDict [])
   \<and> last_six [entry ''user'' (ustr ''one''), entry ''assistant'' (ustr ''<b>two</b>''),
               entry ''user'' (ustr ''three''), entry ''assistant'' (ustr ''four''),
               entry ''user'' (ustr ''five''), entry ''assistant'' (ustr ''<p>six</p>'')] =
       [entry ''user'' (ustr ''one''), entry ''assistant'' (ustr ''<b>two</b>''),
        entry ''user'' (ustr ''three''), entry ''assistant'' (ustr ''four''),
        entry ''user'' (ustr ''five''), entry ''assistant'' (ustr ''<p>six</p>'')]"
proof -
  let ?six = "[entry ''user'' (ustr ''one''), entry ''assistant'' (ustr ''<b>two</b>''),
               entry ''user'' (ustr ''three''), entry ''assistant'' (ustr ''four''),
               entry ''user'' (ustr ''five''), entry ''assistant'' (ustr ''<p>six</p>'')]"
  let ?seven = "entry ''user'' (ustr ''zero'') # ?six"
  let ?kvs = "[(ustr ''message'', JStr (ustr ''hi'')), (ustr ''history'', JList ?seven)]"
  have i: "add_intake example_env system_context_base (JDict []) = Inr system_context_base"
    by (simp add: add_intake_def)
  have i': "add_intake example_env system_context_base (dict_get ?kvs (ustr ''intake_data'') (JDict []))
      = Inr system_context_base"
    by (simp add: add_intake_def dict_get_def ustr_def)
  have l: "last_six ?seven = ?six"
    by (simp add: last_six_def)
  have w: "list_all well_formed_entry (last_six ?seven)"
    by (simp only: l list.pred_inject well_formed_entry_entry simp_thms)
  have m: "map_of ?kvs (ustr ''history'') = Some (JList ?seven)"
    by (simp only: map_of.simps fst_conv snd_conv fun_upd_apply key_neqs simp_thms if_True if_False)
  have u: "truthy (dict_get ?kvs (ustr ''message'') (JStr []))"
    by (simp add: dict_get_def ustr_def)
  have f: "py_format example_env (JStr (ustr ''hi'')) = ustr ''hi''"
    "py_format example_env (dict_get ?kvs (ustr ''message'') (JStr [])) = ustr ''hi''"
    by (simp_all add: py_format_def dict_get_def)
  have x: "concat (map (entry_text example_env) ?six) =
      ustr ''Patient: one\<newline>You: two\<newline>Patient: three\<newline>You: four\<newline>Patient: five\<newline>You: six\<newline>''"
    by (simp add: entry_text_user entry_text_assistant strip_tags_examples) (simp add: ustr_def)
  have n: "?seven \<noteq> []"
    by simp
  note A = history_truncated_to_last_six [of example_env "JDict []" system_context_base ?seven
      "JStr (ustr ''hi'')" ?kvs "[]"]
  note B = history_truncated_to_last_six [of example_env "JDict []" system_context_base ?six
      "JStr (ustr ''hi'')" "[(ustr ''history'', JList ?six)]" "[entry ''user'' (ustr ''zero'')]"]
  from A i w have 1: "chat_prompt example_env (JStr (ustr ''hi'')) (JList ?seven) (JDict []) =
          Inr (system_context_base
               @ (if ?seven = [] then []
                  else ustr ''\<newline>\<newline>RECENT CONVERSATION:\<newline>''
                       @ concat (map (entry_text example_env) (last_six ?seven)))
               @ ustr ''\<newline>\<newline>CURRENT PATIENT MESSAGE:\<newline>''
               @ py_format example_env (JStr (ustr ''hi'')) @ ustr ''\<newline>\<newline>'' @ chat_instructions)"
    by blast
  from A i' w m u have 2: "snd (chat_handle example_env (JDict ?kvs)) =
          [GenerateContent model_name
             (system_context_base
              @ (if ?seven = [] then []
                 else ustr ''\<newline>\<newline>RECENT CONVERSATION:\<newline>''
                      @ concat (map (entry_text example_env) (last_six ?seven)))
              @ ustr ''\<newline>\<newline>CURRENT PATIENT MESSAGE:\<newline>''
              @ py_format example_env (dict_get ?kvs (ustr ''message'') (JStr []))
              @ ustr ''\<newline>\<newline>'' @ chat_instructions)]"
    by blast
  have six: "6 \<le> length ?six" "length ?six \<le> 6"
    by simp_all
  from B six have 3: "chat_prompt example_env (JStr (ustr ''hi'')) (JList ([entry ''user'' (ustr ''zero'')] @ ?six)) (JDict []) =
     chat_prompt example_env (JStr (ustr ''hi'')) (JList ?six) (JDict [])"
    and 4: "last_six ?six = ?six"
    by blast+
  from 1 n have p1: "chat_prompt example_env (JStr (ustr ''hi'')) (JList ?seven) (JDict []) =
          Inr (system_context_base
               @ ustr ''\<newline>\<newline>RECENT CONVERSATION:\<newline>''
               @ ustr ''Patient: one\<newline>You: two\<newline>Patient: three\<newline>You: four\<newline>Patient: five\<newline>You: six\<newline>''
               @ ustr ''\<newline>\<newline>CURRENT PATIENT MESSAGE:\<newline>''
               @ ustr ''hi'' @ ustr ''\<newline>\<newline>'' @ chat_instructions)"
    by (simp only: l x f if_False append_assoc)
  from 2 n have p2: "snd (chat_handle example_env (JDict ?kvs)) =
          [GenerateContent model_name
             (system_context_base
              @ ustr ''\<newline>\<newline>RECENT CONVERSATION:\<newline>''
              @ ustr ''Patient: one\<newline>You: two\<newline>Patient: three\<newline>You: four\<newline>Patient: five\<newline>You: six\<newline>''
              @ ustr ''\<newline>\<newline>CURRENT PATIENT MESSAGE:\<newline>''
              @ ustr ''hi'' @ ustr ''\<newline>\<newline>'' @ chat_instructions)]"
    by (simp only: l x f if_False append_assoc)
  have direct: "chat_prompt example_env (JStr (ustr ''hi'')) (JList ?seven) (JDict []) =
          Inr (system_context_base
               @ ustr ''\<newline>\<newline>RECENT CONVERSATION:\<newline>''
               @ ustr ''Patient: one\<newline>You: two\<newline>Patient: three\<newline>You: four\<newline>Patient: five\<newline>You: six\<newline>''
               @ ustr ''\<newline>\<newline>CURRENT PATIENT MESSAGE:\<newline>''
               @ ustr ''hi'' @ ustr ''\<newline>\<newline>'' @ chat_instructions)"
    by (simp add: chat_prompt_def add_intake_def add_history_def py_slice_last_six_def py_iter_def
        last_six_def history_entry_def entry_def dict_get_def py_format_def re_sub_tags_def
        limit_length_def strip_tags_examples)
      (simp add: ustr_def)
  from p1 p2 3 4 direct show ?thesis
    by blast
qed

subsection \<open>One history entry\<close>

lemma length_limit_length: "length (limit_length s) \<le> 503"
  by (simp add: limit_length_def)

lemma take_limit_length: "take 500 (limit_length s) = take 500 s"
  by (simp add: limit_length_def)

lemma history_entry_user_str:
  "history_entry env ctx (entry ''user'' c) = Inr (ctx @ ustr ''Patient: '' @ c @ ustr ''\<newline>'')"
  by (simp add: history_entry_dict entry_def dict_get_def py_format_def)

lemma history_entry_assistant_str:
  "history_entry env ctx (entry ''assistant'' c) =
     Inr (ctx @ ustr ''You: '' @ limit_length (strip_tags c) @ ustr ''\<newline>'')"
  by (simp add: history_entry_dict entry_def dict_get_def re_sub_tags_def)

lemma history_entry_other:
  "dict_get kvs (ustr ''role'') (JStr []) \<noteq> JStr (ustr ''user'') \<Longrightarrow>
   dict_get kvs (ustr ''role'') (JStr []) \<noteq> JStr (ustr ''assistant'') \<Longrightarrow>
   history_entry env ctx (JDict kvs) = Inr ctx"
  by (simp add: history_entry_dict)

lemma history_loop_skip:
  assumes "\<And>ctx. history_entry env ctx msg = Inr ctx"
  shows "history_loop env ctx (before @ msg # after) = history_loop env ctx (before @ after)"
  using assms by (simp add: history_loop_append)

lemma strip_tags_example:
  "strip_tags (ustr ''<p>Rest <b>now</b></p>'') = ustr ''Rest now''"
  by (simp add: ustr_def lt_sign_def gt_sign_def match_tag_def)

text \<open>
  Claim C2, as the claim states it, fails. It says that whatever the role, content of
  more than 500 characters is cut to its first 500 before it is appended. The limit
  stands in the assistant branch only: a user entry of 501 characters is appended
  whole, which is not the entry cut to 500.
\<close>

theorem long_user_content_embedded_whole:
  "history_entry example_env [] (entry ''user'' (replicate 501 97)) =
     Inr (ustr ''Patient: '' @ replicate 501 97 @ ustr ''\<newline>'')
   \<and> history_entry example_env [] (entry ''user'' (replicate 501 97)) \<noteq>
     Inr (ustr ''Patient: '' @ take 500 (replicate 501 97) @ ustr ''\<newline>'')
   \<and> 500 < length (replicate 501 (97::nat))"
proof -
  have "length (replicate 501 (97::nat) @ ustr ''\<newline>'') \<noteq>
        length (take 500 (replicate 501 (97::nat)) @ ustr ''\<newline>'')"
    by simp
  then have "replicate 501 (97::nat) @ ustr ''\<newline>'' \<noteq> take 500 (replicate 501 97) @ ustr ''\<newline>''"
    by (rule contrapos_nn) (erule arg_cong)
  moreover have "500 < length (replicate 501 (97::nat))"
    by simp
  moreover have "history_entry example_env [] (entry ''user'' (replicate 501 97)) =
     Inr (ustr ''Patient: '' @ replicate 501 97 @ ustr ''\<newline>'')"
    by (simp add: history_entry_def entry_def dict_get_def py_format_def)
  ultimately show ?thesis
    by (simp only: append_Nil sum.inject same_append_eq simp_thms)
qed

text \<open>
  Claim C2, amended. For an entry with role \<^verbatim>\<open>assistant\<close> that the loop
  appends, the content is a string and the text between \<^verbatim>\<open>You: \<close> and the
  newline is the tag-stripped content, cut to its first 500 characters followed by
  \<^verbatim>\<open>...\<close> when it is longer than 500: never more than 503 characters, so
  the entry adds at most 509 characters to the context. For an entry with role
  \<^verbatim>\<open>user\<close> the string content is appended whole, whatever its length: the
  entry adds the length of the content and ten characters.
\<close>

theorem assistant_content_limited:
  "(dict_get kvs (ustr ''role'') (JStr []) = JStr (ustr ''assistant'')
      \<and> history_entry env ctx (JDict kvs) = Inr ctx'
    \<longrightarrow> (\<exists>c. dict_get kvs (ustr ''content'') (JStr []) = JStr c
             \<and> ctx' = ctx @ ustr ''You: ''
                      @ (if 500 < length (strip_tags c) then take 500 (strip_tags c) @ ustr ''...''
                         else strip_tags c)
                      @ ustr ''\<newline>''
             \<and> length (if 500 < length (strip_tags c) then take 500 (strip_tags c) @ ustr ''...''
                        else strip_tags c) \<le> 503
             \<and> length ctx' \<le> length ctx + 509))
   \<and> (dict_get kvs (ustr ''role'') (JStr []) = JStr (ustr ''user'')
      \<and> dict_get kvs (ustr ''content'') (JStr []) = JStr c
    \<longrightarrow> history_entry env ctx (JDict kvs) = Inr (ctx @ ustr ''Patient: '' @ c @ ustr ''\<newline>'')
        \<and> length (ctx @ ustr ''Patient: '' @ c @ ustr ''\<newline>'') = length ctx + length c + 10)"
proof (intro conjI impI)
  assume a: "dict_get kvs (ustr ''role'') (JStr []) = JStr (ustr ''assistant'')
      \<and> history_entry env ctx (JDict kvs) = Inr ctx'"
  then have a1: "dict_get kvs (ustr ''role'') (JStr []) = JStr (ustr ''assistant'')"
    and a2: "history_entry env ctx (JDict kvs) = Inr ctx'"
    by blast+
  from a2 have r: "try_bind (re_sub_tags (dict_get kvs (ustr ''content'') (JStr [])))
      (\<lambda>clean_content. Inr (ctx @ ustr ''You: '' @ limit_length clean_content @ ustr ''\<newline>'')) = Inr ctx'"
    by (simp add: history_entry_def a1)
  then obtain c where c: "dict_get kvs (ustr ''content'') (JStr []) = JStr c"
    by (cases "dict_get kvs (ustr ''content'') (JStr [])") (simp_all add: re_sub_tags_def)
  let ?t = "if 500 < length (strip_tags c) then take 500 (strip_tags c) @ ustr ''...'' else strip_tags c"
  from r c have eq: "ctx' = ctx @ ustr ''You: '' @ ?t @ ustr ''\<newline>''"
    by (simp add: re_sub_tags_def limit_length_def)
  have len: "length ?t \<le> 503"
    by simp
  have "length ctx' \<le> length ctx + 509"
    unfolding eq using len by simp
  with c eq len show "\<exists>c. dict_get kvs (ustr ''content'') (JStr []) = JStr c
             \<and> ctx' = ctx @ ustr ''You: ''
                      @ (if 500 < length (strip_tags c) then take 500 (strip_tags c) @ ustr ''...''
                         else strip_tags c)
                      @ ustr ''\<newline>''
             \<and> length (if 500 < length (strip_tags c) then take 500 (strip_tags c) @ ustr ''...''
                        else strip_tags c) \<le> 503
             \<and> length ctx' \<le> length ctx + 509"
    by blast
next
  assume u: "dict_get kvs (ustr ''role'') (JStr []) = JStr (ustr ''user'')
      \<and> dict_get kvs (ustr ''content'') (JStr []) = JStr c"
  then show "history_entry env ctx (JDict kvs) = Inr (ctx @ ustr ''Patient: '' @ c @ ustr ''\<newline>'')"
    by (simp add: history_entry_def py_format_def)
next
  show "length (ctx @ ustr ''Patient: '' @ c @ ustr ''\<newline>'') = length ctx + length c + 10"
    by simp
qed

theorem assistant_content_limited_witness:
  "history_entry example_env [] (entry ''assistant'' (replicate 600 97)) =
     Inr ([] @ ustr ''You: '' @ (replicate 500 97 @ ustr ''...'') @ ustr ''\<newline>'')
   \<and> length (replicate 500 (97::nat) @ ustr ''...'') \<le> 503
   \<and> history_entry example_env [] (entry ''user'' (replicate 501 97)) =
     Inr ([] @ ustr ''Patient: '' @ replicate 501 97 @ ustr ''\<newline>'')
   \<and> length ([] @ ustr ''Patient: '' @ replicate 501 (97::nat) @ ustr ''\<newline>'') = length ([]::pystr) + length (replicate 501 (97::nat)) + 10"
proof -
  let ?a = "[(ustr ''role'', JStr (ustr ''assistant'')), (ustr ''content'', JStr (replicate 600 97))]"
  let ?u = "[(ustr ''role'', JStr (ustr ''user'')), (ustr ''content'', JStr (replicate 501 97))]"
  let ?r = "[] @ ustr ''You: '' @ limit_length (strip_tags (replicate 600 97)) @ ustr ''\<newline>''"
  have ra: "dict_get ?a (ustr ''role'') (JStr []) = JStr (ustr ''assistant'')"
    and ca: "dict_get ?a (ustr ''content'') (JStr []) = JStr (replicate 600 97)"
    and ru: "dict_get ?u (ustr ''role'') (JStr []) = JStr (ustr ''user'')"
    and cu: "dict_get ?u (ustr ''content'') (JStr []) = JStr (replicate 501 97)"
    by (simp_all add: dict_get_def)
  have h: "history_entry example_env [] (JDict ?a) = Inr ?r"
    by (simp add: history_entry_def dict_get_def re_sub_tags_def)
  have n: "lt_sign \<notin> set (replicate 600 (97::nat))"
    by (simp add: lt_sign_def)
  have s: "strip_tags (replicate 600 97) = replicate 600 97"
    by (rule strip_tags_no_lt [OF n])
  have big: "500 < length (replicate 600 (97::nat))"
    by simp
  have tk: "take 500 (replicate 600 (97::nat)) = replicate 500 97"
    by simp
  note A = assistant_content_limited [of ?a example_env "[]" ?r "replicate 600 97"]
  note U = assistant_content_limited [of ?u example_env "[]" ?r "replicate 501 97"]
  from A ra h obtain c where c: "dict_get ?a (ustr ''content'') (JStr []) = JStr c"
    and e: "?r = [] @ ustr ''You: ''
                @ (if 500 < length (strip_tags c) then take 500 (strip_tags c) @ ustr ''...''
                   else strip_tags c) @ ustr ''\<newline>''"
    and b: "length (if 500 < length (strip_tags c) then take 500 (strip_tags c) @ ustr ''...''
                        else strip_tags c) \<le> 503"
    by blast
  from c ca have cc: "c = replicate 600 97"
    by simp
  from h e have 1: "history_entry example_env [] (JDict ?a) =
      Inr ([] @ ustr ''You: '' @ (replicate 500 97 @ ustr ''...'') @ ustr ''\<newline>'')"
    by (simp only: cc s big tk if_True)
  from b have 2: "length (replicate 500 (97::nat) @ ustr ''...'') \<le> 503"
    by (simp only: cc s big tk if_True)
  from U ru cu have 3: "history_entry example_env [] (JDict ?u) =
      Inr ([] @ ustr ''Patient: '' @ replicate 501 97 @ ustr ''\<newline>'')"
    and 4: "length ([] @ ustr ''Patient: '' @ replicate 501 (97::nat) @ ustr ''\<newline>'')
      = length ([]::pystr) + length (replicate 501 (97::nat)) + 10"
    by blast+
  have lim: "limit_length (replicate 600 (97::nat)) = replicate 500 97 @ ustr ''...''"
    by (simp add: limit_length_def)
  from h have direct: "history_entry example_env [] (JDict ?a) =
      Inr ([] @ ustr ''You: '' @ (replicate 500 97 @ ustr ''...'') @ ustr ''\<newline>'')"
    by (simp only: s lim)
  have whole: "history_entry example_env [] (JDict ?u) =
      Inr ([] @ ustr ''Patient: '' @ replicate 501 97 @ ustr ''\<newline>'')"
    by (simp add: history_entry_def dict_get_def py_format_def)
  from 1 2 3 4 direct whole show ?thesis
    by (simp only: entry_def simp_thms)
qed

text \<open>
  Claim C8. For an entry whose content is the string \<open>c\<close>: with role
  \<^verbatim>\<open>assistant\<close> the loop appends \<^verbatim>\<open>You: \<close>, then the content with
  its tags removed, cut to its first 500 characters followed by \<^verbatim>\<open>...\<close> when
  the stripped text is longer than 500, then a newline; with role \<^verbatim>\<open>user\<close>
  it appends \<^verbatim>\<open>Patient: \<close> and the content unchanged. Removing the tags
  leaves no substring that matches \<^verbatim>\<open><[^>]+>\<close>, changes nothing in a string
  without such a substring, and deletes the leftmost tag as a whole.
\<close>

theorem history_entry_by_role:
  assumes "dict_get kvs (ustr ''content'') (JStr []) = JStr c"
  shows "(dict_get kvs (ustr ''role'') (JStr []) = JStr (ustr ''assistant'') \<longrightarrow>
            history_entry env ctx (JDict kvs) =
              Inr (ctx @ ustr ''You: ''
                   @ (if 500 < length (strip_tags c) then take 500 (strip_tags c) @ ustr ''...''
                      else strip_tags c)
                   @ ustr ''\<newline>''))
       \<and> (dict_get kvs (ustr ''role'') (JStr []) = JStr (ustr ''user'') \<longrightarrow>
            history_entry env ctx (JDict kvs) = Inr (ctx @ ustr ''Patient: '' @ c @ ustr ''\<newline>''))
       \<and> \<not> has_tag (strip_tags c)
       \<and> (\<not> has_tag c \<longrightarrow> strip_tags c = c)
       \<and> (\<forall>pre inner post. c = pre @ lt_sign # inner @ gt_sign # post \<and> lt_sign \<notin> set pre
              \<and> inner \<noteq> [] \<and> gt_sign \<notin> set inner
            \<longrightarrow> strip_tags c = pre @ strip_tags post)"
proof -
  have a: "dict_get kvs (ustr ''role'') (JStr []) = JStr (ustr ''assistant'') \<longrightarrow>
            history_entry env ctx (JDict kvs) =
              Inr (ctx @ ustr ''You: ''
                   @ (if 500 < length (strip_tags c) then take 500 (strip_tags c) @ ustr ''...''
                      else strip_tags c)
                   @ ustr ''\<newline>'')"
    using assms by (simp add: history_entry_def re_sub_tags_def limit_length_def)
  have u: "dict_get kvs (ustr ''role'') (JStr []) = JStr (ustr ''user'') \<longrightarrow>
            history_entry env ctx (JDict kvs) = Inr (ctx @ ustr ''Patient: '' @ c @ ustr ''\<newline>'')"
    using assms by (simp add: history_entry_def py_format_def)
  have t: "\<not> has_tag (strip_tags c)"
    by (simp add: has_tag_iff strip_tags_no_match)
  have i: "\<not> has_tag c \<longrightarrow> strip_tags c = c"
    by (simp add: has_tag_iff strip_tags_id)
  have l: "\<forall>pre inner post. c = pre @ lt_sign # inner @ gt_sign # post \<and> lt_sign \<notin> set pre
              \<and> inner \<noteq> [] \<and> gt_sign \<notin> set inner
            \<longrightarrow> strip_tags c = pre @ strip_tags post"
    by (auto simp: strip_tags_leftmost)
  from a u t i l show ?thesis by blast
qed

theorem history_entry_by_role_witness:
  "history_entry example_env (ustr ''ctx: '') (entry ''assistant'' (ustr ''<p>Rest <b>now</b></p>'')) =
     Inr (ustr ''ctx: '' @ ustr ''You: '' @ ustr ''Rest now'' @ ustr ''\<newline>'')
   \<and> history_entry example_env (ustr ''ctx: '') (entry ''user'' (ustr ''<p>Rest <b>now</b></p>'')) =
     Inr (ustr ''ctx: '' @ ustr ''Patient: '' @ ustr ''<p>Rest <b>now</b></p>'' @ ustr ''\<newline>'')
   \<and> \<not> has_tag (ustr ''Rest now'')
   \<and> strip_tags (ustr ''Rest now'') = ustr ''Rest now''
   \<and> strip_tags (ustr ''<p>Rest <b>now</b></p>'') = [] @ strip_tags (ustr ''Rest <b>now</b></p>'')"
proof -
  let ?c = "ustr ''<p>Rest <b>now</b></p>''"
  let ?a = "[(ustr ''role'', JStr (ustr ''assistant'')), (ustr ''content'', JStr ?c)]"
  let ?u = "[(ustr ''role'', JStr (ustr ''user'')), (ustr ''content'', JStr ?c)]"
  have ca: "dict_get ?a (ustr ''content'') (JStr []) = JStr ?c"
    and ra: "dict_get ?a (ustr ''role'') (JStr []) = JStr (ustr ''assistant'')"
    and cu: "dict_get ?u (ustr ''content'') (JStr []) = JStr ?c"
    and ru: "dict_get ?u (ustr ''role'') (JStr []) = JStr (ustr ''user'')"
    by (simp_all add: dict_get_def)
  have len: "\<not> 500 < length (strip_tags ?c)"
    by (simp add: strip_tags_example)
  have dec: "?c = [] @ lt_sign # ustr ''p'' @ gt_sign # ustr ''Rest <b>now</b></p>''"
    "lt_sign \<notin> set ([]::pystr)" "ustr ''p'' \<noteq> []" "gt_sign \<notin> set (ustr ''p'')"
    by (simp_all add: ustr_def lt_sign_def gt_sign_def)
  note A = history_entry_by_role [OF ca, of example_env "ustr ''ctx: ''"]
  note U = history_entry_by_role [OF cu, of example_env "ustr ''ctx: ''"]
  have 1: "history_entry example_env (ustr ''ctx: '') (JDict ?a) =
      Inr (ustr ''ctx: '' @ ustr ''You: '' @ ustr ''Rest now'' @ ustr ''\<newline>'')"
    using A ra len by (simp only: strip_tags_example if_False simp_thms)
  have 2: "history_entry example_env (ustr ''ctx: '') (JDict ?u) =
      Inr (ustr ''ctx: '' @ ustr ''Patient: '' @ ?c @ ustr ''\<newline>'')"
    using U ru by blast
  have 3: "\<not> has_tag (ustr ''Rest now'')"
    using A by (simp only: strip_tags_example simp_thms)
  have 4: "strip_tags (ustr ''Rest now'') = ustr ''Rest now''"
    using history_entry_by_role [of "[(ustr ''content'', JStr (ustr ''Rest now''))]" "ustr ''Rest now''" example_env "[]"] 3
    by (simp add: dict_get_def)
  have 5: "strip_tags ?c = [] @ strip_tags (ustr ''Rest <b>now</b></p>'')"
    using A dec by blast
  from 1 2 3 4 5 show ?thesis by (simp only: entry_def simp_thms)
qed

text \<open>
  Claim C9. An entry (a JSON object) whose role is neither \<^verbatim>\<open>user\<close> nor
  \<^verbatim>\<open>assistant\<close>, or that has no \<^verbatim>\<open>role\<close> key, leaves the context
  as it is and raises nothing, whatever its content: the loop gives the same result
  with the entry and without it.
\<close>

theorem other_roles_contribute_nothing:
  "(dict_get kvs (ustr ''role'') (JStr []) \<noteq> JStr (ustr ''user'')
      \<and> dict_get kvs (ustr ''role'') (JStr []) \<noteq> JStr (ustr ''assistant'')
    \<longrightarrow> history_entry env ctx (JDict kvs) = Inr ctx
        \<and> history_loop env ctx (before @ JDict kvs # after) = history_loop env ctx (before @ after))
   \<and> (map_of kvs (ustr ''role'') = None
    \<longrightarrow> history_entry env ctx (JDict kvs) = Inr ctx
        \<and> history_loop env ctx (before @ JDict kvs # after) = history_loop env ctx (before @ after))"
proof -
  have a: "history_entry env ctx (JDict kvs) = Inr ctx
        \<and> history_loop env ctx (before @ JDict kvs # after) = history_loop env ctx (before @ after)"
    if "dict_get kvs (ustr ''role'') (JStr []) \<noteq> JStr (ustr ''user'')"
      and "dict_get kvs (ustr ''role'') (JStr []) \<noteq> JStr (ustr ''assistant'')"
    using history_entry_other [OF that] history_loop_skip [of env "JDict kvs" ctx before after]
    by simp
  have b: "dict_get kvs (ustr ''role'') (JStr []) \<noteq> JStr (ustr ''user'')
      \<and> dict_get kvs (ustr ''role'') (JStr []) \<noteq> JStr (ustr ''assistant'')"
    if "map_of kvs (ustr ''role'') = None"
    using that by (simp add: dict_get_def ustr_def)
  from a b show ?thesis by blast
qed

theorem other_roles_contribute_nothing_witness:
  "history_entry example_env (ustr ''ctx'') (JDict [(ustr ''role'', JStr (ustr ''system'')), (ustr ''content'', JInt 7)])
     = Inr (ustr ''ctx'')
   \<and> history_loop example_env (ustr ''ctx'')
        ([entry ''user'' (ustr ''a'')] @ JDict [(ustr ''role'', JStr (ustr ''system'')), (ustr ''content'', JInt 7)]
           # [entry ''user'' (ustr ''b'')]) =
       history_loop example_env (ustr ''ctx'') ([entry ''user'' (ustr ''a'')] @ [entry ''user'' (ustr ''b'')])
   \<and> history_entry example_env (ustr ''ctx'') (JDict [(ustr ''content'', JStr (ustr ''orphan''))]) = Inr (ustr ''ctx'')"
proof -
  let ?s = "[(ustr ''role'', JStr (ustr ''system'')), (ustr ''content'', JInt 7)]"
  let ?o = "[(ustr ''content'', JStr (ustr ''orphan''))]"
  have r: "dict_get ?s (ustr ''role'') (JStr []) \<noteq> JStr (ustr ''user'')
      \<and> dict_get ?s (ustr ''role'') (JStr []) \<noteq> JStr (ustr ''assistant'')"
    by (simp add: dict_get_def ustr_def)
  have m: "map_of ?o (ustr ''role'') = None"
    by simp
  from other_roles_contribute_nothing [of ?s example_env "ustr ''ctx''" "[entry ''user'' (ustr ''a'')]" "[entry ''user'' (ustr ''b'')]"] r
    other_roles_contribute_nothing [of ?o example_env "ustr ''ctx''" "[]" "[]"] m
  show ?thesis by blast
qed

subsection \<open>The two endpoints\<close>

lemma chat_api_post:
  "http_method request = ustr ''POST'' \<Longrightarrow>
   chat_api env request =
     except_handler env (ustr ''Error in chat_api: '')
       (ustr ''An error occurred while processing your request'') (try_body env chat_handle request)"
  by (simp add: chat_api_def)

lemma initial_consultation_api_post:
  "http_method request = ustr ''POST'' \<Longrightarrow>
   initial_consultation_api env request =
     except_handler env (ustr ''Error in initial_consultation_api: '')
       (ustr ''An error occurred'') (try_body env consultation_handle request)"
  by (simp add: initial_consultation_api_def)

lemma try_body_loads_error:
  "json_loads env (body request) = Inl e \<Longrightarrow>
   try_body env handle request = (Inl e, [JsonLoads (body request)])"
  by (simp add: try_body_def)

lemma try_body_loads_ok:
  "json_loads env (body request) = Inr data \<Longrightarrow>
   try_body env handle request = (fst (handle env data), JsonLoads (body request) # snd (handle env data))"
  by (simp add: try_body_def)

lemma except_handler_ok:
  "except_handler env log_prefix error_message (Inr response, evs) = (response, evs)"
  by (simp add: except_handler_def)

lemma except_handler_error:
  "except_handler env log_prefix error_message (Inl e, evs) =
     (internal_error env error_message e, evs @ [Print (log_prefix @ exc_str env e)])"
  by (simp add: except_handler_def)

lemma consultation_handle_dict:
  "consultation_handle env (JDict kvs) =
     (if \<not> truthy (dict_get kvs (ustr ''intake_data'') (JDict []))
      then (Inr (JsonResponse [(ustr ''error'', JStr (ustr ''No intake data provided''))] 400), [])
      else (case consultation_prompt env (dict_get kvs (ustr ''intake_data'') (JDict [])) of
              Inl e \<Rightarrow> (Inl e, [])
            | Inr prompt \<Rightarrow> call_api env (ustr ''No response generated'') prompt))"
  by (simp add: consultation_handle_def)

lemma chat_handle_not_dict:
  "\<forall>kvs. data \<noteq> JDict kvs \<Longrightarrow>
   chat_handle env data = (Inl (AttributeError data (ustr ''get'')), [])"
  by (cases data) (simp_all add: chat_handle_def py_get_def)

lemma consultation_handle_not_dict:
  "\<forall>kvs. data \<noteq> JDict kvs \<Longrightarrow>
   consultation_handle env data = (Inl (AttributeError data (ustr ''get'')), [])"
  by (cases data) (simp_all add: consultation_handle_def py_get_def)

lemma call_api_success:
  "generate_content env model_name prompt = Inr (Response (Inr text)) \<Longrightarrow> text \<noteq> [] \<Longrightarrow>
   call_api env empty_message prompt =
     (Inr (JsonResponse [(ustr ''response'', JStr text), (ustr ''status'', JStr (ustr ''success''))] 200),
      [GenerateContent model_name prompt])"
  by (simp add: call_api_def relay_def)

lemma call_api_raises:
  "generate_content env model_name prompt = Inl e \<Longrightarrow>
   call_api env empty_message prompt = (Inl e, [GenerateContent model_name prompt])"
  "generate_content env model_name prompt = Inr (Response (Inl e)) \<Longrightarrow>
   call_api env empty_message prompt = (Inl e, [GenerateContent model_name prompt])"
  by (simp_all add: call_api_def relay_def)

lemma chat_api_falsy_message:
  assumes "http_method request = ustr ''POST''"
    and "json_loads env (body request) = Inr (JDict kvs)"
    and "\<not> truthy (dict_get kvs (ustr ''message'') (JStr []))"
  shows "chat_api env request =
           (JsonResponse [(ustr ''error'', JStr (ustr ''No message provided''))] 400,
            [JsonLoads (body request)])"
  using assms
  by (simp add: chat_api_post try_body_loads_ok chat_handle_dict except_handler_ok)

lemma consultation_api_falsy_intake:
  assumes "http_method request = ustr ''POST''"
    and "json_loads env (body request) = Inr (JDict kvs)"
    and "\<not> truthy (dict_get kvs (ustr ''intake_data'') (JDict []))"
  shows "initial_consultation_api env request =
           (JsonResponse [(ustr ''error'', JStr (ustr ''No intake data provided''))] 400,
            [JsonLoads (body request)])"
  using assms
  by (simp add: initial_consultation_api_post try_body_loads_ok consultation_handle_dict except_handler_ok)

lemma example_loads_simps:
  "example_loads ''{}'' = Inr (JDict [])"
  \<open>example_loads ''{"message": "hi"}'' = Inr (JDict [(ustr ''message'', JStr (ustr ''hi''))])\<close>
  \<open>example_loads ''{"message": ""}'' = Inr (JDict [(ustr ''message'', JStr [])])\<close>
  \<open>example_loads ''{"intake_data": {}}'' = Inr (JDict [(ustr ''intake_data'', JDict [])])\<close>
  \<open>example_loads ''{"intake_data": {"symptom": "cough"}}'' =
     Inr (JDict [(ustr ''intake_data'', JDict [(ustr ''symptom'', JStr (ustr ''cough''))])])\<close>
  "example_loads ''[]'' = Inr (JList [])"
  "example_loads ''{oops'' = Inl (Raised (ustr ''JSONDecodeError'') (ustr ''Expecting value: line 1 column 1 (char 0)''))"
  by (simp_all add: example_loads_def)

lemma example_env_simps [simp]:
  "json_loads example_env = example_loads"
  "json_loads failing_env = example_loads"
  "http_method (post_request b) = ustr ''POST''"
  "body (post_request b) = b"
  "http_method get_request = ustr ''GET''"
  by (simp_all add: example_env_def failing_env_def post_request_def get_request_def)

lemma example_generate [simp]:
  "generate_content example_env name prompt = Inr (Response (Inr (ustr ''<p>Please rest.</p>'')))"
  "generate_content failing_env name prompt =
     Inl (Raised (ustr ''ResourceExhausted'') (ustr ''429 quota exceeded''))"
  by (simp_all add: example_env_def failing_env_def)

lemma exc_str_Raised [simp]: "exc_str env (Raised cls msg) = msg"
  by (simp add: exc_str_def)

lemma chat_api_raised:
  assumes "http_method request = ustr ''POST''"
    and "fst (try_body env chat_handle request) = Inl e"
  shows "chat_api env request =
           (internal_error env (ustr ''An error occurred while processing your request'') e,
            snd (try_body env chat_handle request) @ [Print (ustr ''Error in chat_api: '' @ exc_str env e)])"
  using assms by (simp add: chat_api_post except_handler_def)

lemma consultation_api_raised:
  assumes "http_method request = ustr ''POST''"
    and "fst (try_body env consultation_handle request) = Inl e"
  shows "initial_consultation_api env request =
           (internal_error env (ustr ''An error occurred'') e,
            snd (try_body env consultation_handle request)
              @ [Print (ustr ''Error in initial_consultation_api: '' @ exc_str env e)])"
  using assms by (simp add: initial_consultation_api_post except_handler_def)

lemma internal_error_fields:
  "status_code (internal_error env m e) = 500"
  "map_of (json_body (internal_error env m e)) (ustr ''status'') = Some (JStr (ustr ''error''))"
  "map_of (json_body (internal_error env m e)) (ustr ''details'') = Some (JStr (exc_str env e))"
  by (simp_all add: internal_error_def JsonResponse_def ustr_def)

text \<open>The prompt of the chat endpoint is built exactly for a valid history and valid
  intake data: then nothing raises before the call of the generative model, and
  otherwise the loop or the patient block raises.\<close>

lemma history_entry_defined_iff:
  "(\<exists>ctx'. history_entry env ctx msg = Inr ctx') \<longleftrightarrow> well_formed_entry msg"
proof (cases msg)
  case (JDict kvs)
  then show ?thesis
    by (cases "dict_get kvs (ustr ''content'') (JStr [])")
      (auto simp: well_formed_entry_def history_entry_dict re_sub_tags_def)
qed (simp_all add: well_formed_entry_def history_entry_def py_get_def)

lemma history_loop_defined_iff:
  "(\<exists>ctx'. history_loop env ctx msgs = Inr ctx') \<longleftrightarrow> list_all well_formed_entry msgs"
proof (induction msgs arbitrary: ctx)
  case Nil
  then show ?case by simp
next
  case (Cons msg msgs)
  show ?case
  proof (cases "history_entry env ctx msg")
    case (Inl e)
    with history_entry_defined_iff [of env ctx msg] show ?thesis by simp
  next
    case (Inr ctx1)
    with history_entry_defined_iff [of env ctx msg] Cons [of ctx1] show ?thesis by simp
  qed
qed

lemma add_history_defined_iff:
  "(\<exists>ctx'. add_history env ctx conversation_history = Inr ctx') \<longleftrightarrow> valid_history conversation_history"
proof (cases conversation_history)
  case (JList msgs)
  then show ?thesis
    using history_loop_defined_iff [of env _ "last_six msgs"]
    by (simp add: add_history_list valid_history_def last_six_Nil_iff)
next
  case (JStr s)
  show ?thesis
  proof (cases s)
    case Nil
    with JStr show ?thesis by (simp add: add_history_def valid_history_def)
  next
    case (Cons c cs)
    then have "last_six s \<noteq> []" by (simp add: last_six_Nil_iff)
    then obtain d ds where "last_six s = d # ds" by (cases "last_six s") auto
    with JStr Cons show ?thesis
      by (simp add: add_history_def valid_history_def py_slice_last_six_def py_iter_def
          history_entry_def py_get_def)
  qed
qed (simp_all add: add_history_def valid_history_def py_slice_last_six_def)

lemma add_intake_defined_iff:
  "(\<exists>ctx'. add_intake env ctx intake_data = Inr ctx') \<longleftrightarrow> valid_intake intake_data"
  by (cases intake_data)
    (simp_all add: add_intake_def valid_intake_def patient_information_def py_get_def)

lemma chat_prompt_defined_iff:
  "(\<exists>prompt. chat_prompt env user_message conversation_history intake_data = Inr prompt)
     \<longleftrightarrow> valid_history conversation_history \<and> valid_intake intake_data"
proof (cases "add_intake env system_context_base intake_data")
  case (Inl e)
  with add_intake_defined_iff [of env system_context_base intake_data] show ?thesis
    by (simp add: chat_prompt_def)
next
  case (Inr c1)
  show ?thesis
  proof (cases "add_history env c1 conversation_history")
    case (Inl e)
    with Inr add_history_defined_iff [of env c1 conversation_history] show ?thesis
      by (simp add: chat_prompt_def)
  next
    case i: (Inr c2)
    with Inr add_history_defined_iff [of env c1 conversation_history]
      add_intake_defined_iff [of env system_context_base intake_data] show ?thesis
      by (simp add: chat_prompt_def)
  qed
qed

lemma chat_prompt_valid:
  assumes "valid_history conversation_history" and "valid_intake intake_data"
  shows "\<exists>prompt. chat_prompt env user_message conversation_history intake_data = Inr prompt"
  using assms chat_prompt_defined_iff by blast

lemma consultation_prompt_valid:
  "is_dict intake_data \<Longrightarrow> \<exists>prompt. consultation_prompt env intake_data = Inr prompt"
  by (cases intake_data) (simp_all add: consultation_prompt_def patient_information_def)

lemma chat_api_relay:
  assumes "http_method request = ustr ''POST''"
    and "json_loads env (body request) = Inr (JDict kvs)"
    and "truthy (dict_get kvs (ustr ''message'') (JStr []))"
    and "chat_prompt env (dict_get kvs (ustr ''message'') (JStr []))
           (dict_get kvs (ustr ''history'') (JList []))
           (dict_get kvs (ustr ''intake_data'') (JDict [])) = Inr prompt"
  shows "chat_api env request =
           except_handler env (ustr ''Error in chat_api: '')
             (ustr ''An error occurred while processing your request'')
             (fst (call_api env (ustr ''No response generated from AI'') prompt),
              JsonLoads (body request) # snd (call_api env (ustr ''No response generated from AI'') prompt))"
  using assms by (simp add: chat_api_post try_body_loads_ok chat_handle_dict)

lemma consultation_api_relay:
  assumes "http_method request = ustr ''POST''"
    and "json_loads env (body request) = Inr (JDict kvs)"
    and "truthy (dict_get kvs (ustr ''intake_data'') (JDict []))"
    and "consultation_prompt env (dict_get kvs (ustr ''intake_data'') (JDict [])) = Inr prompt"
  shows "initial_consultation_api env request =
           except_handler env (ustr ''Error in initial_consultation_api: '')
             (ustr ''An error occurred'')
             (fst (call_api env (ustr ''No response generated'') prompt),
              JsonLoads (body request) # snd (call_api env (ustr ''No response generated'') prompt))"
  using assms by (simp add: initial_consultation_api_post try_body_loads_ok consultation_handle_dict)

text \<open>The shape of every reply.\<close>

lemma reply_shape_relay: "relay empty_message response = Inr r \<Longrightarrow> reply_shape r"
  by (auto simp: relay_def reply_shape_def body_keys_def JsonResponse_def try_bind_def
      split: api_response.splits sum.splits if_splits)

lemma reply_shape_call_api: "fst (call_api env empty_message prompt) = Inr r \<Longrightarrow> reply_shape r"
  by (auto simp: call_api_def try_bind_def split: sum.splits dest: reply_shape_relay)

lemma reply_shape_400:
  "reply_shape (JsonResponse [(ustr ''error'', m)] 400)"
  "reply_shape (JsonResponse [(ustr ''error'', m)] 405)"
  by (simp_all add: reply_shape_def body_keys_def JsonResponse_def)

lemma reply_shape_internal_error: "reply_shape (internal_error env m e)"
  by (simp add: reply_shape_def body_keys_def JsonResponse_def internal_error_def)

lemma reply_shape_chat_handle: "fst (chat_handle env data) = Inr r \<Longrightarrow> reply_shape r"
proof (cases data)
  case (JDict kvs)
  assume "fst (chat_handle env data) = Inr r"
  with JDict show ?thesis
    by (auto simp: chat_handle_dict reply_shape_400 split: if_splits sum.splits
        dest: reply_shape_call_api)
qed (simp_all add: chat_handle_def py_get_def)

lemma reply_shape_consultation_handle: "fst (consultation_handle env data) = Inr r \<Longrightarrow> reply_shape r"
proof (cases data)
  case (JDict kvs)
  assume "fst (consultation_handle env data) = Inr r"
  with JDict show ?thesis
    by (auto simp: consultation_handle_dict reply_shape_400 split: if_splits sum.splits
        dest: reply_shape_call_api)
qed (simp_all add: consultation_handle_def py_get_def)

lemma reply_shape_except_handler:
  assumes "\<And>r. fst attempt = Inr r \<Longrightarrow> reply_shape r"
  shows "reply_shape (fst (except_handler env log_prefix error_message attempt))"
  using assms by (auto simp: except_handler_def reply_shape_internal_error split: sum.splits)

lemma reply_shape_try_body:
  assumes "\<And>data r. fst (handle env data) = Inr r \<Longrightarrow> reply_shape r"
  shows "fst (try_body env handle request) = Inr r \<Longrightarrow> reply_shape r"
  using assms by (auto simp: try_body_def split: sum.splits)

lemma no_status_key:
  assumes "reply_shape r" and "status_code r = 400 \<or> status_code r = 405"
  shows "\<not> success_envelope r \<and> \<not> error_envelope r"
  using assms
  by (auto simp: reply_shape_def success_envelope_def error_envelope_def has_key_def body_keys_def
      ustr_def split: if_splits)

text \<open>
  Claim C3, as the claim states it, fails. It says that every body has the keys
  \<^verbatim>\<open>response\<close> and \<^verbatim>\<open>status\<close> or the keys \<^verbatim>\<open>error\<close> and
  \<^verbatim>\<open>status\<close>, the 400 and 405 replies included. The reply to a GET request has
  neither shape: its body is \<^verbatim>\<open>{"error": "Method not allowed"}\<close> alone.
\<close>

theorem method_not_allowed_has_no_status:
  "\<not> (success_envelope (fst (chat_api example_env get_request))
       \<or> error_envelope (fst (chat_api example_env get_request)))"
  by (simp add: chat_api_def get_request_def method_not_allowed_def JsonResponse_def
      success_envelope_def error_envelope_def has_key_def ustr_def)

text \<open>
  Claim C3, amended. Every reply of either endpoint has the shape of its status: under
  200 exactly the keys \<^verbatim>\<open>response\<close> and \<^verbatim>\<open>status\<close>; under 500 the keys
  \<^verbatim>\<open>error\<close> and \<^verbatim>\<open>status\<close>, with \<^verbatim>\<open>details\<close> between them when
  an exception was caught; under 400 and 405 the key \<^verbatim>\<open>error\<close> alone, so these
  two carry no \<^verbatim>\<open>status\<close> field. No other status occurs.
\<close>

theorem reply_envelopes:
  "reply_shape (fst (chat_api env request))
   \<and> reply_shape (fst (initial_consultation_api env request))
   \<and> (status_code (fst (chat_api env request)) = 400
        \<or> status_code (fst (chat_api env request)) = 405
      \<longrightarrow> \<not> error_envelope (fst (chat_api env request)))
   \<and> (status_code (fst (initial_consultation_api env request)) = 400
        \<or> status_code (fst (initial_consultation_api env request)) = 405
      \<longrightarrow> \<not> error_envelope (fst (initial_consultation_api env request)))"
proof -
  have c: "reply_shape (fst (chat_api env request))"
    unfolding chat_api_def method_not_allowed_def
    by (auto intro!: reply_shape_except_handler reply_shape_400
        elim: reply_shape_try_body [rotated] dest: reply_shape_chat_handle)
  have i: "reply_shape (fst (initial_consultation_api env request))"
    unfolding initial_consultation_api_def method_not_allowed_def
    by (auto intro!: reply_shape_except_handler reply_shape_400
        elim: reply_shape_try_body [rotated] dest: reply_shape_consultation_handle)
  from c i no_status_key [OF c] no_status_key [OF i] show ?thesis by blast
qed

theorem reply_envelopes_witness:
  "reply_shape (fst (chat_api example_env get_request))
   \<and> \<not> error_envelope (fst (chat_api example_env get_request))
   \<and> status_code (fst (chat_api example_env get_request)) = 405
   \<and> reply_shape (fst (initial_consultation_api example_env (post_request ''{}'')))
   \<and> \<not> error_envelope (fst (initial_consultation_api example_env (post_request ''{}'')))
   \<and> status_code (fst (initial_consultation_api example_env (post_request ''{}''))) = 400"
proof -
  have a: "status_code (fst (chat_api example_env get_request)) = 405"
    by (simp add: chat_api_def get_request_def method_not_allowed_def JsonResponse_def)
  have b: "status_code (fst (initial_consultation_api example_env (post_request ''{}''))) = 400"
    by (simp add: initial_consultation_api_post post_request_def try_body_def example_env_def
        example_loads_def consultation_handle_dict dict_get_def except_handler_def JsonResponse_def)
  from reply_envelopes [of example_env get_request] reply_envelopes [of example_env "post_request ''{}''"] a b
  show ?thesis by blast
qed

text \<open>
  Claim C4. A POST request whose body decodes to a JSON object without the required
  key (\<^verbatim>\<open>message\<close> for the chat endpoint, \<^verbatim>\<open>intake_data\<close> for the
  initial consultation) is answered with status 400 and a body holding an
  \<^verbatim>\<open>error\<close> field; the only event is the decoding of the body, so the
  generative model is not called.
\<close>

theorem missing_field_bad_request:
  assumes "http_method request = ustr ''POST''"
    and "json_loads env (body request) = Inr (JDict kvs)"
  shows "(map_of kvs (ustr ''message'') = None \<longrightarrow>
           chat_api env request =
             (JsonResponse [(ustr ''error'', JStr (ustr ''No message provided''))] 400,
              [JsonLoads (body request)]))
       \<and> (map_of kvs (ustr ''intake_data'') = None \<longrightarrow>
           initial_consultation_api env request =
             (JsonResponse [(ustr ''error'', JStr (ustr ''No intake data provided''))] 400,
              [JsonLoads (body request)]))
       \<and> status_code (JsonResponse [(ustr ''error'', JStr (ustr ''No message provided''))] 400) = 400
       \<and> status_code (JsonResponse [(ustr ''error'', JStr (ustr ''No intake data provided''))] 400) = 400"
  using assms
  by (simp add: chat_api_falsy_message consultation_api_falsy_intake dict_get_def JsonResponse_def)

theorem missing_field_bad_request_witness:
  "chat_api example_env (post_request ''{}'') =
     (JsonResponse [(ustr ''error'', JStr (ustr ''No message provided''))] 400, [JsonLoads ''{}''])
   \<and> initial_consultation_api example_env (post_request ''{}'') =
     (JsonResponse [(ustr ''error'', JStr (ustr ''No intake data provided''))] 400, [JsonLoads ''{}''])"
proof -
  have p: "http_method (post_request ''{}'') = ustr ''POST''"
    and l: "json_loads example_env (body (post_request ''{}'')) = Inr (JDict [])"
    by (simp_all add: example_loads_simps)
  have m: "map_of ([]::(pystr \<times> json) list) (ustr ''message'') = None"
    "map_of ([]::(pystr \<times> json) list) (ustr ''intake_data'') = None"
    by simp_all
  from missing_field_bad_request [OF p l] m show ?thesis
    by (simp only: example_env_simps)
qed

text \<open>
  Claim C5. A request whose method is not POST is answered by either endpoint with
  status 405 and the body \<^verbatim>\<open>{"error": "Method not allowed"}\<close>, whatever the
  request body and the environment, and with no event at all: the body is not decoded
  and the generative model is not called.
\<close>

theorem non_post_method_not_allowed:
  assumes "http_method request \<noteq> ustr ''POST''"
  shows "chat_api env request = (method_not_allowed, [])
       \<and> initial_consultation_api env request = (method_not_allowed, [])
       \<and> status_code method_not_allowed = 405
       \<and> json_body method_not_allowed = [(ustr ''error'', JStr (ustr ''Method not allowed''))]"
  using assms
  by (simp add: chat_api_def initial_consultation_api_def method_not_allowed_def JsonResponse_def)

theorem non_post_method_not_allowed_witness:
  "chat_api failing_env get_request = (method_not_allowed, [])
   \<and> initial_consultation_api failing_env get_request = (method_not_allowed, [])
   \<and> status_code method_not_allowed = 405
   \<and> json_body method_not_allowed = [(ustr ''error'', JStr (ustr ''Method not allowed''))]"
proof -
  have "http_method get_request \<noteq> ustr ''POST''"
    by simp
  then show ?thesis
    by (rule non_post_method_not_allowed)
qed

text \<open>
  Claim C6. For a POST request whose body decodes to a JSON object, with a truthy
  message, a valid history and valid intake data (for the initial consultation: intake
  data that is a non-empty object), the prompt is built, and whenever the generative
  model answers it with a non-empty text the reply is status 200 with the body
  \<^verbatim>\<open>{"response": text, "status": "success"}\<close>, after exactly one call of the
  model.
\<close>

theorem api_success_relayed:
  assumes "http_method request = ustr ''POST''"
    and "json_loads env (body request) = Inr (JDict kvs)"
  shows "(truthy (dict_get kvs (ustr ''message'') (JStr []))
          \<and> valid_history (dict_get kvs (ustr ''history'') (JList []))
          \<and> valid_intake (dict_get kvs (ustr ''intake_data'') (JDict []))
         \<longrightarrow> (\<exists>prompt.
                chat_prompt env (dict_get kvs (ustr ''message'') (JStr []))
                  (dict_get kvs (ustr ''history'') (JList []))
                  (dict_get kvs (ustr ''intake_data'') (JDict [])) = Inr prompt
                \<and> (\<forall>text. generate_content env model_name prompt = Inr (Response (Inr text))
                          \<and> text \<noteq> []
                     \<longrightarrow> chat_api env request =
                           (JsonResponse [(ustr ''response'', JStr text),
                                          (ustr ''status'', JStr (ustr ''success''))] 200,
                            [JsonLoads (body request), GenerateContent model_name prompt]))))
       \<and> (truthy (dict_get kvs (ustr ''intake_data'') (JDict []))
          \<and> is_dict (dict_get kvs (ustr ''intake_data'') (JDict []))
         \<longrightarrow> (\<exists>prompt.
                consultation_prompt env (dict_get kvs (ustr ''intake_data'') (JDict [])) = Inr prompt
                \<and> (\<forall>text. generate_content env model_name prompt = Inr (Response (Inr text))
                          \<and> text \<noteq> []
                     \<longrightarrow> initial_consultation_api env request =
                           (JsonResponse [(ustr ''response'', JStr text),
                                          (ustr ''status'', JStr (ustr ''success''))] 200,
                            [JsonLoads (body request), GenerateContent model_name prompt]))))
       \<and> status_code (JsonResponse [(ustr ''response'', JStr text),
                                    (ustr ''status'', JStr (ustr ''success''))] 200) = 200"
proof (intro conjI impI)
  assume v: "truthy (dict_get kvs (ustr ''message'') (JStr []))
          \<and> valid_history (dict_get kvs (ustr ''history'') (JList []))
          \<and> valid_intake (dict_get kvs (ustr ''intake_data'') (JDict []))"
  then obtain prompt where p: "chat_prompt env (dict_get kvs (ustr ''message'') (JStr []))
                  (dict_get kvs (ustr ''history'') (JList []))
                  (dict_get kvs (ustr ''intake_data'') (JDict [])) = Inr prompt"
    using chat_prompt_valid by blast
  have "chat_api env request =
          (JsonResponse [(ustr ''response'', JStr t), (ustr ''status'', JStr (ustr ''success''))] 200,
           [JsonLoads (body request), GenerateContent model_name prompt])"
    if "generate_content env model_name prompt = Inr (Response (Inr t))" and "t \<noteq> []" for t
    using v p that assms
    by (simp add: chat_api_relay [OF assms _ p] call_api_success except_handler_ok)
  with p show "\<exists>prompt.
                chat_prompt env (dict_get kvs (ustr ''message'') (JStr []))
                  (dict_get kvs (ustr ''history'') (JList []))
                  (dict_get kvs (ustr ''intake_data'') (JDict [])) = Inr prompt
                \<and> (\<forall>text. generate_content env model_name prompt = Inr (Response (Inr text))
                          \<and> text \<noteq> []
                     \<longrightarrow> chat_api env request =
                           (JsonResponse [(ustr ''response'', JStr text),
                                          (ustr ''status'', JStr (ustr ''success''))] 200,
                            [JsonLoads (body request), GenerateContent model_name prompt]))"
    by blast
next
  assume v: "truthy (dict_get kvs (ustr ''intake_data'') (JDict []))
          \<and> is_dict (dict_get kvs (ustr ''intake_data'') (JDict []))"
  then obtain prompt where p: "consultation_prompt env (dict_get kvs (ustr ''intake_data'') (JDict [])) = Inr prompt"
    using consultation_prompt_valid by blast
  have "initial_consultation_api env request =
          (JsonResponse [(ustr ''response'', JStr t), (ustr ''status'', JStr (ustr ''success''))] 200,
           [JsonLoads (body request), GenerateContent model_name prompt])"
    if "generate_content env model_name prompt = Inr (Response (Inr t))" and "t \<noteq> []" for t
    using v p that assms
    by (simp add: consultation_api_relay [OF assms _ p] call_api_success except_handler_ok)
  with p show "\<exists>prompt.
                consultation_prompt env (dict_get kvs (ustr ''intake_data'') (JDict [])) = Inr prompt
                \<and> (\<forall>text. generate_content env model_name prompt = Inr (Response (Inr text))
                          \<and> text \<noteq> []
                     \<longrightarrow> initial_consultation_api env request =
                           (JsonResponse [(ustr ''response'', JStr text),
                                          (ustr ''status'', JStr (ustr ''success''))] 200,
                            [JsonLoads (body request), GenerateContent model_name prompt]))"
    by blast
next
  show "status_code (JsonResponse [(ustr ''response'', JStr text),
                                    (ustr ''status'', JStr (ustr ''success''))] 200) = 200"
    by (simp add: JsonResponse_def)
qed

theorem api_success_relayed_witness:
  \<open>fst (chat_api example_env (post_request ''{"message": "hi"}'')) =
     JsonResponse [(ustr ''response'', JStr (ustr ''<p>Please rest.</p>'')),
                   (ustr ''status'', JStr (ustr ''success''))] 200
   \<and> fst (initial_consultation_api example_env (post_request ''{"intake_data": {"symptom": "cough"}}'')) =
     JsonResponse [(ustr ''response'', JStr (ustr ''<p>Please rest.</p>'')),
                   (ustr ''status'', JStr (ustr ''success''))] 200\<close>
proof -
  let ?m = "[(ustr ''message'', JStr (ustr ''hi''))]"
  let ?i = "[(ustr ''intake_data'', JDict [(ustr ''symptom'', JStr (ustr ''cough''))])]"
  let ?t = "ustr ''<p>Please rest.</p>''"
  let ?b1 = \<open>''{"message": "hi"}''\<close>
  let ?b2 = \<open>''{"intake_data": {"symptom": "cough"}}''\<close>
  have p: "\<And>b. http_method (post_request b) = ustr ''POST''"
    by simp
  have l1: "json_loads example_env (body (post_request ?b1)) = Inr (JDict ?m)"
    and l2: "json_loads example_env (body (post_request ?b2)) = Inr (JDict ?i)"
    by (simp_all add: example_loads_simps)
  have v1: "truthy (dict_get ?m (ustr ''message'') (JStr []))
          \<and> valid_history (dict_get ?m (ustr ''history'') (JList []))
          \<and> valid_intake (dict_get ?m (ustr ''intake_data'') (JDict []))"
    by (simp add: dict_get_def valid_history_def valid_intake_def ustr_def)
  have v2: "truthy (dict_get ?i (ustr ''intake_data'') (JDict []))
          \<and> is_dict (dict_get ?i (ustr ''intake_data'') (JDict []))"
    by (simp add: dict_get_def)
  have t: "?t \<noteq> []"
    by (simp add: ustr_def)
  have g: "\<And>prompt. generate_content example_env model_name prompt = Inr (Response (Inr ?t)) \<and> ?t \<noteq> []"
    using t by simp
  from api_success_relayed [OF p l1, of ?t] v1 obtain prompt1 where
    a1: "\<forall>text. generate_content example_env model_name prompt1 = Inr (Response (Inr text)) \<and> text \<noteq> []
       \<longrightarrow> chat_api example_env (post_request ?b1) =
           (JsonResponse [(ustr ''response'', JStr text), (ustr ''status'', JStr (ustr ''success''))] 200,
            [JsonLoads (body (post_request ?b1)), GenerateContent model_name prompt1])"
    by blast
  from api_success_relayed [OF p l2, of ?t] v2 obtain prompt2 where
    a2: "\<forall>text. generate_content example_env model_name prompt2 = Inr (Response (Inr text)) \<and> text \<noteq> []
       \<longrightarrow> initial_consultation_api example_env (post_request ?b2) =
           (JsonResponse [(ustr ''response'', JStr text), (ustr ''status'', JStr (ustr ''success''))] 200,
            [JsonLoads (body (post_request ?b2)), GenerateContent model_name prompt2])"
    by blast
  from a1 g [of prompt1] have c1: "chat_api example_env (post_request ?b1) =
           (JsonResponse [(ustr ''response'', JStr ?t), (ustr ''status'', JStr (ustr ''success''))] 200,
            [JsonLoads (body (post_request ?b1)), GenerateContent model_name prompt1])"
    by blast
  from a2 g [of prompt2] have c2: "initial_consultation_api example_env (post_request ?b2) =
           (JsonResponse [(ustr ''response'', JStr ?t), (ustr ''status'', JStr (ustr ''success''))] 200,
            [JsonLoads (body (post_request ?b2)), GenerateContent model_name prompt2])"
    by blast
  show ?thesis
    by (simp only: c1 c2 fst_conv simp_thms)
qed

text \<open>
  Claim C7. For a POST request, an exception raised anywhere in the \<^verbatim>\<open>try\<close>
  body is caught: the reply is \<open>internal_error\<close>, that is status 500 with
  \<^verbatim>\<open>status\<close> \<^verbatim>\<open>error\<close> and \<^verbatim>\<open>details\<close> the exception's message,
  and the message is printed. In particular so for a body that
  \<^verbatim>\<open>json.loads\<close> rejects and for an exception of the generative model, raised
  by the call or by reading the text of its response.
\<close>

theorem exception_internal_error:
  assumes "http_method request = ustr ''POST''"
  shows "(fst (try_body env chat_handle request) = Inl e \<longrightarrow>
            chat_api env request =
              (internal_error env (ustr ''An error occurred while processing your request'') e,
               snd (try_body env chat_handle request)
                 @ [Print (ustr ''Error in chat_api: '' @ exc_str env e)]))
       \<and> (fst (try_body env consultation_handle request) = Inl e \<longrightarrow>
            initial_consultation_api env request =
              (internal_error env (ustr ''An error occurred'') e,
               snd (try_body env consultation_handle request)
                 @ [Print (ustr ''Error in initial_consultation_api: '' @ exc_str env e)]))
       \<and> (json_loads env (body request) = Inl e \<longrightarrow>
            chat_api env request =
              (internal_error env (ustr ''An error occurred while processing your request'') e,
               [JsonLoads (body request), Print (ustr ''Error in chat_api: '' @ exc_str env e)])
            \<and> initial_consultation_api env request =
              (internal_error env (ustr ''An error occurred'') e,
               [JsonLoads (body request),
                Print (ustr ''Error in initial_consultation_api: '' @ exc_str env e)]))
       \<and> (json_loads env (body request) = Inr (JDict kvs)
            \<and> truthy (dict_get kvs (ustr ''message'') (JStr []))
            \<and> chat_prompt env (dict_get kvs (ustr ''message'') (JStr []))
                 (dict_get kvs (ustr ''history'') (JList []))
                 (dict_get kvs (ustr ''intake_data'') (JDict [])) = Inr prompt
            \<and> (generate_content env model_name prompt = Inl e
                \<or> generate_content env model_name prompt = Inr (Response (Inl e)))
          \<longrightarrow> chat_api env request =
              (internal_error env (ustr ''An error occurred while processing your request'') e,
               [JsonLoads (body request), GenerateContent model_name prompt,
                Print (ustr ''Error in chat_api: '' @ exc_str env e)]))
       \<and> (json_loads env (body request) = Inr (JDict kvs)
            \<and> truthy (dict_get kvs (ustr ''intake_data'') (JDict []))
            \<and> consultation_prompt env (dict_get kvs (ustr ''intake_data'') (JDict [])) = Inr prompt
            \<and> (generate_content env model_name prompt = Inl e
                \<or> generate_content env model_name prompt = Inr (Response (Inl e)))
          \<longrightarrow> initial_consultation_api env request =
              (internal_error env (ustr ''An error occurred'') e,
               [JsonLoads (body request), GenerateContent model_name prompt,
                Print (ustr ''Error in initial_consultation_api: '' @ exc_str env e)]))
       \<and> status_code (internal_error env m e) = 500
       \<and> map_of (json_body (internal_error env m e)) (ustr ''status'') = Some (JStr (ustr ''error''))
       \<and> map_of (json_body (internal_error env m e)) (ustr ''details'') = Some (JStr (exc_str env e))"
proof -
  have a: "fst (try_body env chat_handle request) = Inl e \<longrightarrow>
            chat_api env request =
              (internal_error env (ustr ''An error occurred while processing your request'') e,
               snd (try_body env chat_handle request)
                 @ [Print (ustr ''Error in chat_api: '' @ exc_str env e)])"
    using assms by (simp add: chat_api_raised)
  have b: "fst (try_body env consultation_handle request) = Inl e \<longrightarrow>
            initial_consultation_api env request =
              (internal_error env (ustr ''An error occurred'') e,
               snd (try_body env consultation_handle request)
                 @ [Print (ustr ''Error in initial_consultation_api: '' @ exc_str env e)])"
    using assms by (simp add: consultation_api_raised)
  have c: "json_loads env (body request) = Inl e \<longrightarrow>
            chat_api env request =
              (internal_error env (ustr ''An error occurred while processing your request'') e,
               [JsonLoads (body request), Print (ustr ''Error in chat_api: '' @ exc_str env e)])
            \<and> initial_consultation_api env request =
              (internal_error env (ustr ''An error occurred'') e,
               [JsonLoads (body request),
                Print (ustr ''Error in initial_consultation_api: '' @ exc_str env e)])"
    using assms
    by (simp add: chat_api_post initial_consultation_api_post try_body_loads_error except_handler_error)
  have d: "json_loads env (body request) = Inr (JDict kvs)
            \<and> truthy (dict_get kvs (ustr ''message'') (JStr []))
            \<and> chat_prompt env (dict_get kvs (ustr ''message'') (JStr []))
                 (dict_get kvs (ustr ''history'') (JList []))
                 (dict_get kvs (ustr ''intake_data'') (JDict [])) = Inr prompt
            \<and> (generate_content env model_name prompt = Inl e
                \<or> generate_content env model_name prompt = Inr (Response (Inl e)))
          \<longrightarrow> chat_api env request =
              (internal_error env (ustr ''An error occurred while processing your request'') e,
               [JsonLoads (body request), GenerateContent model_name prompt,
                Print (ustr ''Error in chat_api: '' @ exc_str env e)])"
    using assms
    by (auto simp: chat_api_relay call_api_raises except_handler_error)
  have f: "json_loads env (body request) = Inr (JDict kvs)
            \<and> truthy (dict_get kvs (ustr ''intake_data'') (JDict []))
            \<and> consultation_prompt env (dict_get kvs (ustr ''intake_data'') (JDict [])) = Inr prompt
            \<and> (generate_content env model_name prompt = Inl e
                \<or> generate_content env model_name prompt = Inr (Response (Inl e)))
          \<longrightarrow> initial_consultation_api env request =
              (internal_error env (ustr ''An error occurred'') e,
               [JsonLoads (body request), GenerateContent model_name prompt,
                Print (ustr ''Error in initial_consultation_api: '' @ exc_str env e)])"
    using assms
    by (auto simp: consultation_api_relay call_api_raises except_handler_error)
  from a b c d f internal_error_fields [of env m e] show ?thesis
    by blast
qed

theorem exception_internal_error_witness:
  \<open>chat_api example_env (post_request ''{oops'') =
     (internal_error example_env (ustr ''An error occurred while processing your request'')
        (Raised (ustr ''JSONDecodeError'') (ustr ''Expecting value: line 1 column 1 (char 0)'')),
      [JsonLoads ''{oops'',
       Print (ustr ''Error in chat_api: '' @ ustr ''Expecting value: line 1 column 1 (char 0)'')])
   \<and> initial_consultation_api example_env (post_request ''{oops'') =
     (internal_error example_env (ustr ''An error occurred'')
        (Raised (ustr ''JSONDecodeError'') (ustr ''Expecting value: line 1 column 1 (char 0)'')),
      [JsonLoads ''{oops'',
       Print (ustr ''Error in initial_consultation_api: '' @ ustr ''Expecting value: line 1 column 1 (char 0)'')])
   \<and> status_code (fst (chat_api failing_env (post_request ''{"message": "hi"}''))) = 500
   \<and> map_of (json_body (fst (chat_api failing_env (post_request ''{"message": "hi"}'')))) (ustr ''status'')
       = Some (JStr (ustr ''error''))
   \<and> map_of (json_body (fst (chat_api failing_env (post_request ''{"message": "hi"}'')))) (ustr ''details'')
       = Some (JStr (ustr ''429 quota exceeded''))\<close>
proof -
  let ?m = "[(ustr ''message'', JStr (ustr ''hi''))]"
  let ?b = \<open>''{"message": "hi"}''\<close>
  let ?j = "Raised (ustr ''JSONDecodeError'') (ustr ''Expecting value: line 1 column 1 (char 0)'')"
  let ?q = "Raised (ustr ''ResourceExhausted'') (ustr ''429 quota exceeded'')"
  let ?msg = "ustr ''An error occurred while processing your request''"
  have p: "\<And>b. http_method (post_request b) = ustr ''POST''"
    by simp
  have l0: "json_loads example_env (body (post_request ''{oops'')) = Inl ?j"
    by (simp add: example_loads_simps)
  have l1: "json_loads failing_env (body (post_request ?b)) = Inr (JDict ?m)"
    by (simp add: example_loads_simps)
  have tr: "truthy (dict_get ?m (ustr ''message'') (JStr []))"
    by (simp add: dict_get_def ustr_def)
  have "valid_history (dict_get ?m (ustr ''history'') (JList []))"
    and "valid_intake (dict_get ?m (ustr ''intake_data'') (JDict []))"
    by (simp_all add: dict_get_def valid_history_def valid_intake_def ustr_def)
  then obtain prompt where pr: "chat_prompt failing_env (dict_get ?m (ustr ''message'') (JStr []))
       (dict_get ?m (ustr ''history'') (JList [])) (dict_get ?m (ustr ''intake_data'') (JDict [])) = Inr prompt"
    using chat_prompt_valid by blast
  have g: "generate_content failing_env model_name prompt = Inl ?q"
    by simp
  note A = exception_internal_error [OF p, of example_env "''{oops''" ?j]
  note B = exception_internal_error [OF p, of failing_env ?b ?q ?m prompt ?msg]
  from A l0 have a1: "chat_api example_env (post_request ''{oops'') =
     (internal_error example_env ?msg ?j,
      [JsonLoads (body (post_request ''{oops'')), Print (ustr ''Error in chat_api: '' @ exc_str example_env ?j)])"
    and a2: "initial_consultation_api example_env (post_request ''{oops'') =
     (internal_error example_env (ustr ''An error occurred'') ?j,
      [JsonLoads (body (post_request ''{oops'')),
       Print (ustr ''Error in initial_consultation_api: '' @ exc_str example_env ?j)])"
    by blast+
  from B l1 tr pr g have b1: "chat_api failing_env (post_request ?b) =
     (internal_error failing_env ?msg ?q,
      [JsonLoads (body (post_request ?b)), GenerateContent model_name prompt,
       Print (ustr ''Error in chat_api: '' @ exc_str failing_env ?q)])"
    by blast
  from B have b2: "status_code (internal_error failing_env ?msg ?q) = 500"
    and b3: "map_of (json_body (internal_error failing_env ?msg ?q)) (ustr ''status'') = Some (JStr (ustr ''error''))"
    and b4: "map_of (json_body (internal_error failing_env ?msg ?q)) (ustr ''details'') = Some (JStr (exc_str failing_env ?q))"
    by blast+
  show ?thesis
    using b2 b3 b4
    by (simp only: a1 a2 b1 fst_conv exc_str_Raised example_env_simps simp_thms)
qed

text \<open>
  Claim C10. A required field that is present but falsy is treated as an absent one:
  for a POST request whose body decodes to an object, a falsy \<^verbatim>\<open>message\<close>
  (the empty string among others) and a falsy \<^verbatim>\<open>intake_data\<close> (the empty
  object among others) get the reply of the missing field, status 400 with an
  \<^verbatim>\<open>error\<close> field, and the generative model is not called.
\<close>

theorem falsy_field_bad_request:
  assumes "http_method request = ustr ''POST''"
    and "json_loads env (body request) = Inr (JDict kvs)"
  shows "(map_of kvs (ustr ''message'') = Some v \<and> \<not> truthy v \<longrightarrow>
           chat_api env request =
             (JsonResponse [(ustr ''error'', JStr (ustr ''No message provided''))] 400,
              [JsonLoads (body request)]))
       \<and> (map_of kvs (ustr ''intake_data'') = Some v \<and> \<not> truthy v \<longrightarrow>
           initial_consultation_api env request =
             (JsonResponse [(ustr ''error'', JStr (ustr ''No intake data provided''))] 400,
              [JsonLoads (body request)]))
       \<and> \<not> truthy (JStr []) \<and> \<not> truthy (JDict [])"
  using assms
  by (simp add: chat_api_falsy_message consultation_api_falsy_intake dict_get_def)

theorem falsy_field_bad_request_witness:
  \<open>chat_api example_env (post_request ''{"message": ""}'') =
     (JsonResponse [(ustr ''error'', JStr (ustr ''No message provided''))] 400,
      [JsonLoads ''{"message": ""}''])
   \<and> initial_consultation_api example_env (post_request ''{"intake_data": {}}'') =
     (JsonResponse [(ustr ''error'', JStr (ustr ''No intake data provided''))] 400,
      [JsonLoads ''{"intake_data": {}}''])\<close>
proof -
  have p: "\<And>b. http_method (post_request b) = ustr ''POST''"
    by simp
  have l1: \<open>json_loads example_env (body (post_request ''{"message": ""}'')) =
      Inr (JDict [(ustr ''message'', JStr [])])\<close>
    and l2: \<open>json_loads example_env (body (post_request ''{"intake_data": {}}'')) =
      Inr (JDict [(ustr ''intake_data'', JDict [])])\<close>
    by (simp_all add: example_loads_simps)
  have m1: "map_of [(ustr ''message'', JStr [])] (ustr ''message'') = Some (JStr []) \<and> \<not> truthy (JStr [])"
    and m2: "map_of [(ustr ''intake_data'', JDict [])] (ustr ''intake_data'') = Some (JDict []) \<and> \<not> truthy (JDict [])"
    by simp_all
  from falsy_field_bad_request [OF p l1, of "JStr []"] falsy_field_bad_request [OF p l2, of "JDict []"] m1 m2
  show ?thesis
    unfolding example_env_simps by blast
qed

end
